theory Spec2Isabelle
  imports Complex_Main "HOL-Library.AList"
begin

section \<open>JavaScript values received by the handlers\<close>

text \<open>
  A JavaScript string is a sequence of UTF-16 code units, kept here as natural numbers.
  \<open>js\<close> turns an ASCII literal of the source into such a sequence.
\<close>

type_synonym jsstring = "nat list"

definition js :: "string \<Rightarrow> jsstring" where
  "js s = map of_char s"

text \<open>
  A JavaScript number is a double: a finite value (kept as the rational it denotes; negative
  zero is identified with zero, which every operation used below treats alike), a NaN or one
  of the two infinities. \<open>JSON.parse\<close> produces finite values and, for literals beyond
  the double range, an infinity; it never produces NaN.
\<close>

datatype jsnum = Finite rat | NaN | PosInf | NegInf

datatype jsval =
    Undefined
  | Null
  | Bool bool
  | Num jsnum
  | Str jsstring
  | Arr "jsval list"
  | Obj "(jsstring \<times> jsval) list"

datatype jstype = TUndefined | TObject | TBoolean | TNumber | TString

fun typeof :: "jsval \<Rightarrow> jstype" where
  "typeof Undefined = TUndefined"
| "typeof Null = TObject"
| "typeof (Bool b) = TBoolean"
| "typeof (Num n) = TNumber"
| "typeof (Str s) = TString"
| "typeof (Arr xs) = TObject"
| "typeof (Obj fs) = TObject"

text \<open>Truthiness, as \<open>!v\<close>, \<open>v || w\<close> and \<open>v && w\<close> read it.\<close>

fun truthy :: "jsval \<Rightarrow> bool" where
  "truthy Undefined = False"
| "truthy Null = False"
| "truthy (Bool b) = b"
| "truthy (Num (Finite r)) = (r \<noteq> 0)"
| "truthy (Num NaN) = False"
| "truthy (Num PosInf) = True"
| "truthy (Num NegInf) = True"
| "truthy (Str s) = (s \<noteq> [])"
| "truthy (Arr xs) = True"
| "truthy (Obj fs) = True"

text \<open>\<open>a || b\<close> on values.\<close>

definition js_or :: "jsval \<Rightarrow> jsval \<Rightarrow> jsval" where
  "js_or a b = (if truthy a then a else b)"

text \<open>The relational operator \<open><\<close> on numbers: every comparison with NaN is false.\<close>

fun num_lt :: "jsnum \<Rightarrow> jsnum \<Rightarrow> bool" where
  "num_lt NaN b = False"
| "num_lt a NaN = False"
| "num_lt (Finite a) (Finite b) = (a < b)"
| "num_lt (Finite a) PosInf = True"
| "num_lt (Finite a) NegInf = False"
| "num_lt PosInf b = False"
| "num_lt NegInf (Finite b) = True"
| "num_lt NegInf PosInf = True"
| "num_lt NegInf NegInf = False"

text \<open>
  \<open>String.prototype.trim\<close> removes white space and line terminators from both ends:
  TAB, LF, VT, FF, CR, SP, NBSP, U+1680, U+2000 to U+200A, U+2028, U+2029, U+202F, U+205F,
  U+3000 and U+FEFF.
\<close>

definition is_js_space :: "nat \<Rightarrow> bool" where
  "is_js_space c \<longleftrightarrow>
     c \<in> {9, 10, 11, 12, 13, 32, 160, 5760, 8232, 8233, 8239, 8287, 12288, 65279}
     \<or> (8192 \<le> c \<and> c \<le> 8202)"

definition trim :: "jsstring \<Rightarrow> jsstring" where
  "trim s = rev (dropWhile is_js_space (rev (dropWhile is_js_space s)))"

definition startsWith :: "jsstring \<Rightarrow> jsstring \<Rightarrow> bool" where
  "startsWith s p \<longleftrightarrow> take (length p) s = p"

section \<open>Thrown values\<close>

text \<open>
  The message of an error is a string. The one message built with
  \<open>JSON.stringify(answer)\<close> keeps the answer it was built from instead of the text of its
  serialisation.
\<close>

datatype errmsg =
    Msg jsstring
  | InvalidAnswerFormat jsval

definition invalid_answer_head :: jsstring where
  "invalid_answer_head = js ''Invalid answer format in array: ''"

text \<open>
  \<open>message.startsWith(p)\<close>. For the templated message the answer is read off the literal
  head of the template, which is longer than both prefixes the source tests for.
\<close>

fun msg_startsWith :: "errmsg \<Rightarrow> jsstring \<Rightarrow> bool" where
  "msg_startsWith (Msg s) p = startsWith s p"
| "msg_startsWith (InvalidAnswerFormat a) p = startsWith invalid_answer_head p"

datatype errclass = PlainError | ValidationError | SyntaxError | TypeError

text \<open>
  Every value thrown is an Error object: its class (what \<open>instanceof\<close> tests), its message
  and the \<open>isValidationError\<close> mark that one variant of the handler sets.
\<close>

record thrown =
  cls :: errclass
  msg :: errmsg
  isValidationError :: bool

definition validation_error :: "jsstring \<Rightarrow> thrown" where
  "validation_error m = \<lparr>cls = ValidationError, msg = Msg m, isValidationError = False\<rparr>"

text \<open>The TypeError of the engine for a property read on \<open>null\<close> or \<open>undefined\<close>.\<close>

definition cannot_read :: "jsstring \<Rightarrow> jsstring \<Rightarrow> thrown" where
  "cannot_read what k =
     \<lparr>cls = TypeError,
      msg = Msg (js ''Cannot read properties of '' @ what @ js '' (reading '' @ [39] @ k @ [39] @ js '')''),
      isValidationError = False\<rparr>"

text \<open>
  Property read \<open>v.k\<close> (and \<open>v[k]\<close>). It throws on
  \<open>null\<close> and \<open>undefined\<close>. An object gives the value stored under the key, or
  \<open>undefined\<close>. A primitive or an array gives \<open>undefined\<close>: none of the names this
  program reads is defined on a prototype.
\<close>

fun getprop :: "jsval \<Rightarrow> jsstring \<Rightarrow> thrown + jsval" where
  "getprop Undefined k = Inl (cannot_read (js ''undefined'') k)"
| "getprop Null k = Inl (cannot_read (js ''null'') k)"
| "getprop (Obj fs) k = Inr (case map_of fs k of None \<Rightarrow> Undefined | Some v \<Rightarrow> v)"
| "getprop (Bool b) k = Inr Undefined"
| "getprop (Num n) k = Inr Undefined"
| "getprop (Str s) k = Inr Undefined"
| "getprop (Arr xs) k = Inr Undefined"

text \<open>
  One field of a destructuring \<open>const { k } = v\<close>, where \<open>src\<close> is the text of the
  expression \<open>v\<close> in the source. It reads the property as \<open>v.k\<close> does; on
  \<open>null\<close> and \<open>undefined\<close> the engine's TypeError has another text.
\<close>

definition cannot_destructure :: "jsstring \<Rightarrow> jsstring \<Rightarrow> jsstring \<Rightarrow> thrown" where
  "cannot_destructure src what k =
     \<lparr>cls = TypeError,
      msg = Msg (js ''Cannot destructure property '' @ [39] @ k @ [39] @ js '' of '' @ [39] @ src
                 @ [39] @ js '' as it is '' @ what @ js ''.''),
      isValidationError = False\<rparr>"

fun destructure :: "jsstring \<Rightarrow> jsval \<Rightarrow> jsstring \<Rightarrow> thrown + jsval" where
  "destructure src Undefined k = Inl (cannot_destructure src (js ''undefined'') k)"
| "destructure src Null k = Inl (cannot_destructure src (js ''null'') k)"
| "destructure src v k = getprop v k"

text \<open>
  The conversion to a string that a template literal \<open>`${v}`\<close> makes. On the values
  of a JSON body it throws exactly when it meets an object with a property \<open>toString\<close>
  of its own: that property is never a function, and the inherited \<open>valueOf\<close> gives the
  object back, so no primitive is found. An array converts its elements, \<open>null\<close> apart.
\<close>

fun tostring_throws :: "jsval \<Rightarrow> bool" where
  "tostring_throws (Obj fs) = (map_of fs (js ''toString'') \<noteq> None)"
| "tostring_throws (Arr xs) = (\<exists>x\<in>set xs. tostring_throws x)"
| "tostring_throws Undefined = False"
| "tostring_throws Null = False"
| "tostring_throws (Bool b) = False"
| "tostring_throws (Num n) = False"
| "tostring_throws (Str t) = False"

definition cannot_convert :: thrown where
  "cannot_convert =
     \<lparr>cls = TypeError, msg = Msg (js ''Cannot convert object to primitive value''),
      isValidationError = False\<rparr>"

text \<open>Sequencing of steps that may throw: the first throw ends the sequence.\<close>

fun bindE :: "thrown + 'a \<Rightarrow> ('a \<Rightarrow> thrown + 'b) \<Rightarrow> thrown + 'b" where
  "bindE (Inl e) f = Inl e"
| "bindE (Inr x) f = f x"

section \<open>Validation helpers\<close>

record common =
  userId :: jsval
  sessionId :: jsval
  timestamp :: jsval

definition validateCommonFields :: "jsval \<Rightarrow> thrown + common" where
  "validateCommonFields payload =
     bindE (destructure (js ''payload'') payload (js ''userId'')) (\<lambda>u.
     bindE (destructure (js ''payload'') payload (js ''sessionId'')) (\<lambda>s.
     bindE (destructure (js ''payload'') payload (js ''timestamp'')) (\<lambda>t.
       if \<not> truthy u \<or> typeof u \<noteq> TString then
         Inl (validation_error (js ''Missing or invalid userId (string required)''))
       else if \<not> truthy s \<or> typeof s \<noteq> TString then
         Inl (validation_error (js ''Missing or invalid sessionId (string required)''))
       else if \<not> truthy t \<or> typeof t \<noteq> TString then
         Inl (validation_error (js ''Missing or invalid timestamp (string required)''))
       else Inr \<lparr>userId = u, sessionId = s, timestamp = t\<rparr>)))"

definition requiredTraits :: "jsstring list" where
  "requiredTraits = [js ''mind'', js ''energy'', js ''nature'', js ''tactics'', js ''identity'']"

text \<open>
  The condition of the \<open>if\<close> inside the loop of \<open>isValidTraitObject\<close>, its disjuncts
  in the order of the source: true when the trait fails.
\<close>

definition trait_fails :: "jsval \<Rightarrow> jsstring \<Rightarrow> thrown + bool" where
  "trait_fails traits trait =
     bindE (getprop traits trait) (\<lambda>t.
       if \<not> truthy t then Inr True
       else
         bindE (getprop t (js ''percent'')) (\<lambda>p.
           case p of
             Num n \<Rightarrow>
               if num_lt n (Finite 0) \<or> num_lt (Finite 100) n then Inr True
               else
                 bindE (getprop t (js ''type'')) (\<lambda>ty.
                   case ty of Str s \<Rightarrow> Inr (trim s = []) | _ \<Rightarrow> Inr True)
           | _ \<Rightarrow> Inr True))"

fun traits_loop :: "jsval \<Rightarrow> jsstring list \<Rightarrow> thrown + bool" where
  "traits_loop traits [] = Inr True"
| "traits_loop traits (trait # rest) =
     (case trait_fails traits trait of
        Inl e \<Rightarrow> Inl e
      | Inr bad \<Rightarrow> if bad then Inr False else traits_loop traits rest)"

definition isValidTraitObject :: "jsval \<Rightarrow> thrown + bool" where
  "isValidTraitObject traits =
     (if \<not> truthy traits \<or> typeof traits \<noteq> TObject then Inr False
      else traits_loop traits requiredTraits)"

text \<open>
  The condition of the \<open>if\<close> inside \<open>answers.forEach\<close>: true when the answer is
  refused. The first property read throws when the element is \<open>null\<close>.
\<close>

definition answer_refused :: "jsval \<Rightarrow> thrown + bool" where
  "answer_refused answer =
     bindE (getprop answer (js ''question_number'')) (\<lambda>n.
       if n = Undefined \<or> n = Null then Inr True
       else
         bindE (getprop answer (js ''question_text'')) (\<lambda>q.
           if \<not> truthy q then Inr True
           else
             bindE (getprop answer (js ''answer_value'')) (\<lambda>v.
               Inr (v = Undefined))))"

fun forEach_answer :: "jsval list \<Rightarrow> thrown + unit" where
  "forEach_answer [] = Inr ()"
| "forEach_answer (answer # rest) =
     (case answer_refused answer of
        Inl e \<Rightarrow> Inl e
      | Inr bad \<Rightarrow>
          if bad then
            Inl \<lparr>cls = ValidationError, msg = InvalidAnswerFormat answer, isValidationError = False\<rparr>
          else forEach_answer rest)"

definition missing_answers_msg :: jsstring where
  "missing_answers_msg = js ''Missing or empty '' @ [34] @ js ''answers'' @ [34] @ js '' array''"

definition validateAnswers :: "jsval \<Rightarrow> thrown + jsval" where
  "validateAnswers answers =
     (case answers of
        Arr xs \<Rightarrow>
          if xs = [] then Inl (validation_error missing_answers_msg)
          else (case forEach_answer xs of Inl e \<Rightarrow> Inl e | Inr u \<Rightarrow> Inr answers)
      | _ \<Rightarrow> Inl (validation_error missing_answers_msg))"

definition profile_prefix :: jsstring where
  "profile_prefix = js ''https://www.16personalities.com/profiles/''"

record test_result =
  profileUrl :: jsval
  mbtiResult :: jsval
  mbtiCode :: jsval
  traits :: jsval

definition validateTestResult :: "jsval \<Rightarrow> thrown + test_result" where
  "validateTestResult payload =
     bindE (destructure (js ''payload'') payload (js ''profileUrl'')) (\<lambda>url.
     bindE (destructure (js ''payload'') payload (js ''mbtiResult'')) (\<lambda>res.
     bindE (destructure (js ''payload'') payload (js ''mbtiCode'')) (\<lambda>code.
     bindE (destructure (js ''payload'') payload (js ''traits'')) (\<lambda>trs.
       if \<not> truthy url \<or> typeof url \<noteq> TString
          \<or> \<not> (case url of Str s \<Rightarrow> startsWith s profile_prefix | _ \<Rightarrow> False) then
         Inl (validation_error (js ''Missing or invalid profileUrl format''))
       else if \<not> truthy res \<or> typeof res \<noteq> TString then
         Inl (validation_error (js ''Missing or invalid mbtiResult (full string)''))
       else if truthy code \<and> typeof code \<noteq> TString then
         Inl (validation_error (js ''Invalid mbtiCode format (should be string or null)''))
       else
         bindE (isValidTraitObject trs) (\<lambda>ok.
           if \<not> ok then Inl (validation_error (js ''Invalid or incomplete traits object''))
           else Inr \<lparr>profileUrl = url, mbtiResult = res, mbtiCode = code, traits = trs\<rparr>)))))"

section \<open>The store\<close>

text \<open>
  An insert statement is kept as its parameters, in the order of the columns. A row of a
  table is the statement that inserted it.
\<close>

datatype stmt =
    InsertEvent jsval jsval jsval jsval
  | InsertAnswer jsval jsval jsval jsval jsval jsval jsval
  | InsertResult "jsval list"

datatype call = Execute stmt | Transaction "stmt list"

record store =
  rows :: "stmt list"
  calls :: "call list"

datatype outcome = Commit | Reject thrown

text \<open>
  Modelled from the spec: the relational store is the database driver, an external
  collaborator whose code is not part of this repository. The spec gives it two primitives,
  the execution of one parameterized statement and a multi-statement atomic transaction.
  Whether a call succeeds is the store's choice, given here as an \<open>outcome\<close>. A single
  statement that commits adds its row; a transaction that commits adds every row, in order;
  a rejected call adds nothing and throws. Every call is recorded in \<open>calls\<close>.
\<close>

definition sql_execute :: "outcome \<Rightarrow> stmt \<Rightarrow> store \<Rightarrow> (thrown + unit) \<times> store" where
  "sql_execute oc q st =
     (case oc of
        Commit \<Rightarrow> (Inr (), st\<lparr>rows := rows st @ [q], calls := calls st @ [Execute q]\<rparr>)
      | Reject e \<Rightarrow> (Inl e, st\<lparr>calls := calls st @ [Execute q]\<rparr>))"

definition sql_transaction :: "outcome \<Rightarrow> stmt list \<Rightarrow> store \<Rightarrow> (thrown + unit) \<times> store" where
  "sql_transaction oc qs st =
     (case oc of
        Commit \<Rightarrow> (Inr (), st\<lparr>rows := rows st @ qs, calls := calls st @ [Transaction qs]\<rparr>)
      | Reject e \<Rightarrow> (Inl e, st\<lparr>calls := calls st @ [Transaction qs]\<rparr>))"

section \<open>Requests and responses\<close>

text \<open>
  Reading \<open>req.body\<close> runs the platform's body parser, which throws on a malformed body:
  the request carries the outcome of that read.
\<close>

record request =
  req_method :: jsstring
  req_body :: "thrown + jsval"

text \<open>
  The text of a response message: a literal of the source, or one of its templates with
  the value it interpolates.
\<close>

datatype message =
    Text string
  | EventReceived jsval
  | ErrorLoggingEvent jsval
  | LoggedAnswers nat
  | InvalidPayloadType jsval

record response =
  status :: nat
  headers :: "(string \<times> string list) list"
  message :: "message option"
  error :: "errmsg option"

definition new_response :: response where
  "new_response = \<lparr>status = 200, headers = [], message = None, error = None\<rparr>"

definition setHeader :: "string \<Rightarrow> string list \<Rightarrow> response \<Rightarrow> response" where
  "setHeader name val res = res\<lparr>headers := AList.update name val (headers res)\<rparr>"

text \<open>\<open>res.status(code).json({message, error})\<close> and \<open>res.status(code).end()\<close>.\<close>

definition json :: "response \<Rightarrow> nat \<Rightarrow> message \<Rightarrow> errmsg option \<Rightarrow> response" where
  "json res code m e = res\<lparr>status := code, message := Some m, error := e\<rparr>"

definition end_response :: "response \<Rightarrow> nat \<Rightarrow> response" where
  "end_response res code = res\<lparr>status := code\<rparr>"

section \<open>Handler functions\<close>

text \<open>
  \<open>handleEvent\<close> writes \<open>eventName\<close> into a log line before its \<open>try\<close> block: a
  value that cannot be converted to a string makes it throw there.
\<close>

definition handleEvent ::
  "outcome \<Rightarrow> jsval \<Rightarrow> response \<Rightarrow> store \<Rightarrow> (thrown + response) \<times> store" where
  "handleEvent oc payload res st =
     (case validateCommonFields payload of
        Inl e \<Rightarrow> (Inl e, st)
      | Inr c \<Rightarrow>
          (case destructure (js ''payload'') payload (js ''eventName'') of
             Inl e \<Rightarrow> (Inl e, st)
           | Inr eventName \<Rightarrow>
               if tostring_throws eventName then (Inl cannot_convert, st)
               else
                 (case sql_execute oc
                         (InsertEvent (userId c) (sessionId c) eventName (timestamp c)) st of
                    (Inr u, st') \<Rightarrow> (Inr (json res 200 (EventReceived eventName) None), st')
                  | (Inl dbError, st') \<Rightarrow>
                      (Inr (json res 500 (ErrorLoggingEvent eventName) (Some (msg dbError))),
                       st'))))"

text \<open>The callback of \<open>answers.map\<close> in \<open>handleAnswers\<close>: one insert statement.\<close>

definition answer_query :: "common \<Rightarrow> jsval \<Rightarrow> thrown + stmt" where
  "answer_query c answer =
     bindE (getprop answer (js ''question_number'')) (\<lambda>n.
     bindE (getprop answer (js ''question_text'')) (\<lambda>q.
     bindE (getprop answer (js ''answer_value'')) (\<lambda>v.
     bindE (getprop answer (js ''answer_label'')) (\<lambda>l.
       Inr (InsertAnswer (userId c) (sessionId c) n q v (js_or l (Str (js ''N/A'')))
              (timestamp c))))))"

text \<open>\<open>xs.map(f)\<close> for a callback that may throw: the first throw ends the traversal.\<close>

fun map_throwing :: "('a \<Rightarrow> thrown + 'b) \<Rightarrow> 'a list \<Rightarrow> thrown + 'b list" where
  "map_throwing f [] = Inr []"
| "map_throwing f (x # xs) =
     (case f x of
        Inl e \<Rightarrow> Inl e
      | Inr y \<Rightarrow> (case map_throwing f xs of Inl e \<Rightarrow> Inl e | Inr ys \<Rightarrow> Inr (y # ys)))"

definition not_a_function :: thrown where
  "not_a_function =
     \<lparr>cls = TypeError, msg = Msg (js ''answers.map is not a function''),
      isValidationError = False\<rparr>"

text \<open>\<open>answers.map(f)\<close> on a value: only an array has the method.\<close>

definition array_map :: "(jsval \<Rightarrow> thrown + 'b) \<Rightarrow> jsval \<Rightarrow> thrown + 'b list" where
  "array_map f answers =
     (case answers of Arr xs \<Rightarrow> map_throwing f xs | _ \<Rightarrow> Inl not_a_function)"

text \<open>\<open>answers.length\<close> of an array.\<close>

fun array_length :: "jsval \<Rightarrow> nat" where
  "array_length (Arr xs) = length xs"
| "array_length v = 0"

definition handleAnswers ::
  "outcome \<Rightarrow> jsval \<Rightarrow> response \<Rightarrow> store \<Rightarrow> (thrown + response) \<times> store" where
  "handleAnswers oc payload res st =
     (case validateCommonFields payload of
        Inl e \<Rightarrow> (Inl e, st)
      | Inr c \<Rightarrow>
          (case bindE (getprop payload (js ''answers'')) validateAnswers of
             Inl e \<Rightarrow> (Inl e, st)
           | Inr answers \<Rightarrow>
               (case array_map (answer_query c) answers of
                  Inl err \<Rightarrow>
                    (Inr (json res 500 (Text ''Database error inserting answers'')
                            (Some (msg err))), st)
                | Inr queries \<Rightarrow>
                    (case sql_transaction oc queries st of
                       (Inr u, st') \<Rightarrow>
                         (Inr (json res 201 (LoggedAnswers (array_length answers)) None), st')
                     | (Inl err, st') \<Rightarrow>
                         (Inr (json res 500 (Text ''Database error inserting answers'')
                                 (Some (msg err))), st')))))"

text \<open>The two columns of one trait: \<open>traits.k.percent\<close> and \<open>traits.k.type\<close>.\<close>

definition trait_columns :: "jsval \<Rightarrow> jsstring \<Rightarrow> thrown + jsval list" where
  "trait_columns trs k =
     bindE (getprop trs k) (\<lambda>t.
     bindE (getprop t (js ''percent'')) (\<lambda>p.
     bindE (getprop t (js ''type'')) (\<lambda>ty. Inr [p, ty])))"

definition result_query :: "common \<Rightarrow> test_result \<Rightarrow> thrown + stmt" where
  "result_query c r =
     bindE (trait_columns (traits r) (js ''mind'')) (\<lambda>mi.
     bindE (trait_columns (traits r) (js ''energy'')) (\<lambda>en.
     bindE (trait_columns (traits r) (js ''nature'')) (\<lambda>na.
     bindE (trait_columns (traits r) (js ''tactics'')) (\<lambda>ta.
     bindE (trait_columns (traits r) (js ''identity'')) (\<lambda>ide.
       Inr (InsertResult
              ([userId c, sessionId c, mbtiCode r, profileUrl r] @ mi @ en @ na @ ta @ ide
               @ [timestamp c])))))))"

definition handleTestResult ::
  "outcome \<Rightarrow> jsval \<Rightarrow> response \<Rightarrow> store \<Rightarrow> (thrown + response) \<times> store" where
  "handleTestResult oc payload res st =
     (case validateCommonFields payload of
        Inl e \<Rightarrow> (Inl e, st)
      | Inr c \<Rightarrow>
          (case validateTestResult payload of
             Inl e \<Rightarrow> (Inl e, st)
           | Inr r \<Rightarrow>
               (case result_query c r of
                  Inl dbError \<Rightarrow>
                    (Inr (json res 500 (Text ''Database error inserting test result'')
                            (Some (msg dbError))), st)
                | Inr q \<Rightarrow>
                    (case sql_execute oc q st of
                       (Inr u, st') \<Rightarrow>
                         (Inr (json res 201 (Text ''Test result logged successfully.'') None), st')
                     | (Inl dbError, st') \<Rightarrow>
                         (Inr (json res 500 (Text ''Database error inserting test result'')
                                 (Some (msg dbError))), st')))))"

section \<open>The main handler\<close>

definition setCorsHeaders :: "response \<Rightarrow> response" where
  "setCorsHeaders res =
     setHeader ''Access-Control-Allow-Credentials'' [''true'']
       (setHeader ''Access-Control-Allow-Headers'' [''Content-Type'']
         (setHeader ''Access-Control-Allow-Methods'' [''POST, OPTIONS'']
           (setHeader ''Access-Control-Allow-Origin'' [''https://www.16personalities.com''] res)))"

text \<open>The response that ends the request, or nothing where the source returns \<open>false\<close>.\<close>

definition handlePreflight :: "request \<Rightarrow> response \<Rightarrow> response option" where
  "handlePreflight req res =
     (if req_method req = js ''OPTIONS'' then Some (end_response res 200) else None)"

text \<open>The dispatch test \<open>type === 'event' && (eventName === ... || eventName === ...)\<close>.\<close>

definition is_event_dispatch :: "jsval \<Rightarrow> jsval \<Rightarrow> thrown + bool" where
  "is_event_dispatch payload ty =
     (if ty = Str (js ''event'')
      then bindE (getprop payload (js ''eventName''))
             (\<lambda>n. Inr (n = Str (js ''test_started'') \<or> n = Str (js ''test_finished'')))
      else Inr False)"

text \<open>
  The body of the \<open>try\<close> block of the handler. The message of its last branch is a
  template with \<open>type\<close> in it, built inside the block.
\<close>

definition handler_try ::
  "outcome \<Rightarrow> request \<Rightarrow> response \<Rightarrow> store \<Rightarrow> (thrown + response) \<times> store" where
  "handler_try oc req res st =
     (case req_body req of
        Inl e \<Rightarrow> (Inl e, st)
      | Inr payload \<Rightarrow>
          if \<not> truthy payload \<or> typeof payload \<noteq> TObject then
            (Inr (json res 400 (Text ''Invalid payload format. Expected JSON object.'') None), st)
          else
            (case destructure (js ''payload'') payload (js ''type'') of
               Inl e \<Rightarrow> (Inl e, st)
             | Inr ty \<Rightarrow>
                 (case is_event_dispatch payload ty of
                    Inl e \<Rightarrow> (Inl e, st)
                  | Inr is_event \<Rightarrow>
                      if is_event then handleEvent oc payload res st
                      else if ty = Str (js ''answers'') then handleAnswers oc payload res st
                      else if ty = Str (js ''result'') then handleTestResult oc payload res st
                      else if tostring_throws ty then (Inl cannot_convert, st)
                      else (Inr (json res 400 (InvalidPayloadType ty) None), st))))"

text \<open>The \<open>catch\<close> block of the handler.\<close>

definition handler_catch :: "response \<Rightarrow> thrown \<Rightarrow> thrown + response" where
  "handler_catch res err =
     (if cls err = ValidationError then
        Inr (json res 400 (Text ''Data validation failed'') (Some (msg err)))
      else if cls err = SyntaxError then
        Inr (json res 400 (Text ''Invalid JSON format'') (Some (msg err)))
      else
        Inr (json res 500 (Text ''Internal Server Error processing request.'')
               (Some (msg err))))"

definition handler :: "outcome \<Rightarrow> request \<Rightarrow> store \<Rightarrow> (thrown + response) \<times> store" where
  "handler oc req st =
     (let res = setCorsHeaders new_response in
      case handlePreflight req res of
        Some r \<Rightarrow> (Inr r, st)
      | None \<Rightarrow>
          if req_method req \<noteq> js ''POST'' then
            (Inr (json (setHeader ''Allow'' [''POST'', ''OPTIONS''] res) 405
                    (Text ''Method Not Allowed'') None), st)
          else
            (case handler_try oc req res st of
               (Inr r, st') \<Rightarrow> (Inr r, st')
             | (Inl err, st') \<Rightarrow> (handler_catch res err, st')))"

section \<open>The earlier variants of the handler (log-answers)\<close>

text \<open>
  The repository keeps three earlier versions of the combined handler. They check the
  common fields inline, before the dispatch on the payload type, and tell validation
  failures from other failures by the text of the message. The first and the second are
  embedded whole. The third puts two \<open>catch\<close> clauses on one \<open>try\<close>, which is not
  JavaScript that can be loaded, so only the callback of its \<open>answers.map\<close> is embedded.
\<close>

definition cors_headers_v1 :: "response \<Rightarrow> response" where
  "cors_headers_v1 res =
     setHeader ''Access-Control-Allow-Headers'' [''Content-Type'']
       (setHeader ''Access-Control-Allow-Methods'' [''POST, OPTIONS'']
         (setHeader ''Access-Control-Allow-Origin'' [''https://www.16personalities.com''] res))"

text \<open>The inline check of the common fields: true when the request is refused.\<close>

definition common_fields_missing :: "jsval \<Rightarrow> jsval \<Rightarrow> jsval \<Rightarrow> bool" where
  "common_fields_missing u s t \<longleftrightarrow>
     \<not> truthy u \<or> \<not> truthy s \<or> \<not> truthy t
     \<or> typeof u \<noteq> TString \<or> typeof s \<noteq> TString \<or> typeof t \<noteq> TString"

definition missing_fields_text :: string where
  "missing_fields_text =
     ''Missing or invalid required fields: userId (string), sessionId (string), timestamp (string)''"

definition missing_answers_text :: string where
  "missing_answers_text = ''Missing or empty '' @ [CHR 0x22] @ ''answers'' @ [CHR 0x22] @ '' array.''"

text \<open>
  The callback of \<open>answers.map\<close> in the first variant: it validates the answer, throws a
  plain \<open>Error\<close> when it is refused, and passes \<open>answer_label\<close> as it is.
\<close>

definition answer_query_v1 :: "jsval \<Rightarrow> jsval \<Rightarrow> jsval \<Rightarrow> jsval \<Rightarrow> thrown + stmt" where
  "answer_query_v1 u s t answer =
     bindE (answer_refused answer) (\<lambda>bad.
       if bad then
         Inl \<lparr>cls = PlainError, msg = InvalidAnswerFormat answer, isValidationError = False\<rparr>
       else
         bindE (getprop answer (js ''question_number'')) (\<lambda>n.
         bindE (getprop answer (js ''question_text'')) (\<lambda>q.
         bindE (getprop answer (js ''answer_value'')) (\<lambda>v.
         bindE (getprop answer (js ''answer_label'')) (\<lambda>l.
           Inr (InsertAnswer u s n q v l t))))))"

text \<open>The \<open>catch\<close> block of the first variant.\<close>

definition handler_catch_v1 :: "response \<Rightarrow> thrown \<Rightarrow> thrown + response" where
  "handler_catch_v1 res err =
     (if msg_startsWith (msg err) (js ''Invalid answer format'')
         \<or> msg_startsWith (msg err) (js ''Missing'') then
        Inr (json res 400 (Text ''Data validation failed'') (Some (msg err)))
      else
        Inr (json res 500 (Text ''Internal Server Error processing request.'')
               (Some (msg err))))"

definition handler_try_v1 ::
  "outcome \<Rightarrow> request \<Rightarrow> response \<Rightarrow> store \<Rightarrow> (thrown + response) \<times> store" where
  "handler_try_v1 oc req res st =
     (case req_body req of
        Inl e \<Rightarrow> (Inl e, st)
      | Inr payload \<Rightarrow>
          if \<not> truthy payload \<or> typeof payload \<noteq> TObject then
            (Inr (json res 400 (Text ''Invalid payload format. Expected JSON object.'') None), st)
          else
            (case bindE (destructure (js ''payload'') payload (js ''type'')) (\<lambda>ty.
                  bindE (destructure (js ''payload'') payload (js ''userId'')) (\<lambda>u.
                  bindE (destructure (js ''payload'') payload (js ''sessionId'')) (\<lambda>s.
                  bindE (destructure (js ''payload'') payload (js ''timestamp''))
                    (\<lambda>t. Inr (ty, u, s, t))))) of
               Inl e \<Rightarrow> (Inl e, st)
             | Inr (ty, u, s, t) \<Rightarrow>
                 if common_fields_missing u s t then
                   (Inr (json res 400 (Text missing_fields_text) None), st)
                 else
                   (case is_event_dispatch payload ty of
                      Inl e \<Rightarrow> (Inl e, st)
                    | Inr is_event \<Rightarrow>
                        if is_event then
                          (case getprop payload (js ''eventName'') of
                             Inl e \<Rightarrow> (Inl e, st)
                           | Inr eventName \<Rightarrow>
                               (case sql_execute oc (InsertEvent u s eventName t) st of
                                  (r, st') \<Rightarrow>
                                    (Inr (json res 200 (EventReceived eventName) None), st')))
                        else if ty = Str (js ''answers'') then
                          (case getprop payload (js ''answers'') of
                             Inl e \<Rightarrow> (Inl e, st)
                           | Inr answers \<Rightarrow>
                               (case answers of
                                  Arr xs \<Rightarrow>
                                    if xs = [] then
                                      (Inr (json res 400 (Text missing_answers_text) None), st)
                                    else
                                      (case map_throwing (answer_query_v1 u s t) xs of
                                         Inl e \<Rightarrow> (Inl e, st)
                                       | Inr queries \<Rightarrow>
                                           (case sql_transaction oc queries st of
                                              (Inl e, st') \<Rightarrow> (Inl e, st')
                                            | (Inr un, st') \<Rightarrow>
                                                (Inr (json res 201 (LoggedAnswers (length xs))
                                                        None), st')))
                                | _ \<Rightarrow>
                                    (Inr (json res 400 (Text missing_answers_text) None), st)))
                        else
                          (Inr (json res 400 (Text ''Invalid payload type specified.'') None),
                           st))))"

definition handler_v1 :: "outcome \<Rightarrow> request \<Rightarrow> store \<Rightarrow> (thrown + response) \<times> store" where
  "handler_v1 oc req st =
     (let res = cors_headers_v1 new_response in
      if req_method req = js ''OPTIONS'' then (Inr (end_response res 200), st)
      else if req_method req \<noteq> js ''POST'' then
        (Inr (json (setHeader ''Allow'' [''POST'', ''OPTIONS''] res) 405
                (Text ''Method Not Allowed'') None), st)
      else
        (case handler_try_v1 oc req res st of
           (Inr r, st') \<Rightarrow> (Inr r, st')
         | (Inl err, st') \<Rightarrow> (handler_catch_v1 res err, st')))"

text \<open>
  The callback of \<open>answers.map\<close> in the second variant: the error it throws is marked
  \<open>isValidationError\<close>, and a falsy \<open>answer_label\<close> becomes \<open>'N/A'\<close>.
\<close>

definition answer_query_v2 :: "jsval \<Rightarrow> jsval \<Rightarrow> jsval \<Rightarrow> jsval \<Rightarrow> thrown + stmt" where
  "answer_query_v2 u s t answer =
     bindE (answer_refused answer) (\<lambda>bad.
       if bad then
         Inl \<lparr>cls = PlainError, msg = InvalidAnswerFormat answer, isValidationError = True\<rparr>
       else
         bindE (getprop answer (js ''question_number'')) (\<lambda>n.
         bindE (getprop answer (js ''question_text'')) (\<lambda>q.
         bindE (getprop answer (js ''answer_value'')) (\<lambda>v.
         bindE (getprop answer (js ''answer_label'')) (\<lambda>l.
           Inr (InsertAnswer u s n q v (js_or l (Str (js ''N/A''))) t))))))"

text \<open>The callback of \<open>answers.map\<close> in the third variant.\<close>

definition answer_query_v3 :: "jsval \<Rightarrow> jsval \<Rightarrow> jsval \<Rightarrow> jsval \<Rightarrow> thrown + stmt" where
  "answer_query_v3 u s t answer =
     bindE (answer_refused answer) (\<lambda>bad.
       if bad then
         Inl \<lparr>cls = PlainError, msg = InvalidAnswerFormat answer, isValidationError = False\<rparr>
       else
         bindE (getprop answer (js ''question_number'')) (\<lambda>n.
         bindE (getprop answer (js ''question_text'')) (\<lambda>q.
         bindE (getprop answer (js ''answer_value'')) (\<lambda>v.
         bindE (getprop answer (js ''answer_label'')) (\<lambda>l.
           Inr (InsertAnswer u s n q v (js_or l (Str (js ''N/A''))) t))))))"

text \<open>The answers branch of the second variant, after the check of the array.\<close>

definition answers_branch_v2 ::
  "outcome \<Rightarrow> jsval \<Rightarrow> jsval \<Rightarrow> jsval \<Rightarrow> jsval list \<Rightarrow> response \<Rightarrow> store
     \<Rightarrow> (thrown + response) \<times> store" where
  "answers_branch_v2 oc u s t xs res st =
     (case map_throwing (answer_query_v2 u s t) xs of
        Inl err \<Rightarrow>
          if isValidationError err then
            (Inr (json res 400 (Text ''Data validation failed for answers'') (Some (msg err))),
             st)
          else
            (Inr (json res 500 (Text ''Internal server error processing answers'')
                    (Some (msg err))), st)
      | Inr queries \<Rightarrow>
          (case sql_transaction oc queries st of
             (Inr un, st') \<Rightarrow> (Inr (json res 201 (LoggedAnswers (length xs)) None), st')
           | (Inl dbError, st') \<Rightarrow>
               (Inr (json res 500 (Text ''Database error inserting answers'')
                       (Some (msg dbError))), st')))"

text \<open>The result branch of the second variant.\<close>

definition result_branch_v2 ::
  "outcome \<Rightarrow> jsval \<Rightarrow> jsval \<Rightarrow> jsval \<Rightarrow> jsval \<Rightarrow> response \<Rightarrow> store
     \<Rightarrow> (thrown + response) \<times> store" where
  "result_branch_v2 oc payload u s t res st =
     (case bindE (destructure (js ''payload'') payload (js ''profileUrl'')) (\<lambda>url.
           bindE (destructure (js ''payload'') payload (js ''mbtiResult'')) (\<lambda>mres.
           bindE (destructure (js ''payload'') payload (js ''mbtiCode'')) (\<lambda>code.
           bindE (destructure (js ''payload'') payload (js ''traits''))
             (\<lambda>trs. Inr (url, mres, code, trs))))) of
        Inl e \<Rightarrow> (Inl e, st)
      | Inr (url, mres, code, trs) \<Rightarrow>
          if \<not> truthy url \<or> typeof url \<noteq> TString
             \<or> \<not> (case url of Str p \<Rightarrow> startsWith p profile_prefix | _ \<Rightarrow> False) then
            (Inr (json res 400 (Text ''Missing or invalid profileUrl format.'') None), st)
          else if \<not> truthy mres \<or> typeof mres \<noteq> TString then
            (Inr (json res 400 (Text ''Missing or invalid mbtiResult (full string).'') None), st)
          else if truthy code \<and> typeof code \<noteq> TString then
            (Inr (json res 400 (Text ''Invalid mbtiCode format (should be string or null).'')
                    None), st)
          else
            (case isValidTraitObject trs of
               Inl e \<Rightarrow> (Inl e, st)
             | Inr ok \<Rightarrow>
                 if \<not> ok then
                   (Inr (json res 400 (Text ''Invalid or incomplete traits object.'') None), st)
                 else
                   (case result_query \<lparr>userId = u, sessionId = s, timestamp = t\<rparr>
                           \<lparr>profileUrl = url, mbtiResult = mres, mbtiCode = code, traits = trs\<rparr> of
                      Inl dbError \<Rightarrow>
                        (Inr (json res 500 (Text ''Database error inserting test result'')
                                (Some (msg dbError))), st)
                    | Inr q \<Rightarrow>
                        (case sql_execute oc q st of
                           (Inr un, st') \<Rightarrow>
                             (Inr (json res 201 (Text ''Test result logged successfully.'') None),
                              st')
                         | (Inl dbError, st') \<Rightarrow>
                             (Inr (json res 500 (Text ''Database error inserting test result'')
                                     (Some (msg dbError))), st')))))"

text \<open>The \<open>catch\<close> block of the second variant.\<close>

definition handler_catch_v2 :: "response \<Rightarrow> thrown \<Rightarrow> thrown + response" where
  "handler_catch_v2 res err =
     (if msg_startsWith (msg err) (js ''Invalid answer format'')
         \<or> msg_startsWith (msg err) (js ''Missing'')
         \<or> cls err = SyntaxError then
        Inr (json res 400 (Text ''Data validation or parsing failed'') (Some (msg err)))
      else
        Inr (json res 500 (Text ''Internal Server Error processing request.'')
               (Some (msg err))))"

definition handler_try_v2 ::
  "outcome \<Rightarrow> request \<Rightarrow> response \<Rightarrow> store \<Rightarrow> (thrown + response) \<times> store" where
  "handler_try_v2 oc req res st =
     (case req_body req of
        Inl e \<Rightarrow> (Inl e, st)
      | Inr payload \<Rightarrow>
          if \<not> truthy payload \<or> typeof payload \<noteq> TObject then
            (Inr (json res 400 (Text ''Invalid payload format. Expected JSON object.'') None), st)
          else
            (case bindE (destructure (js ''payload'') payload (js ''type'')) (\<lambda>ty.
                  bindE (destructure (js ''payload'') payload (js ''userId'')) (\<lambda>u.
                  bindE (destructure (js ''payload'') payload (js ''sessionId'')) (\<lambda>s.
                  bindE (destructure (js ''payload'') payload (js ''timestamp''))
                    (\<lambda>t. Inr (ty, u, s, t))))) of
               Inl e \<Rightarrow> (Inl e, st)
             | Inr (ty, u, s, t) \<Rightarrow>
                 if common_fields_missing u s t then
                   (Inr (json res 400 (Text missing_fields_text) None), st)
                 else
                   (case is_event_dispatch payload ty of
                      Inl e \<Rightarrow> (Inl e, st)
                    | Inr is_event \<Rightarrow>
                        if is_event then
                          (case getprop payload (js ''eventName'') of
                             Inl e \<Rightarrow> (Inl e, st)
                           | Inr eventName \<Rightarrow>
                               (case sql_execute oc (InsertEvent u s eventName t) st of
                                  (Inr un, st') \<Rightarrow>
                                    (Inr (json res 200 (EventReceived eventName) None), st')
                                | (Inl dbError, st') \<Rightarrow>
                                    (Inr (json res 500 (ErrorLoggingEvent eventName)
                                            (Some (msg dbError))), st')))
                        else if ty = Str (js ''answers'') then
                          (case getprop payload (js ''answers'') of
                             Inl e \<Rightarrow> (Inl e, st)
                           | Inr answers \<Rightarrow>
                               (case answers of
                                  Arr xs \<Rightarrow>
                                    if xs = [] then
                                      (Inr (json res 400 (Text missing_answers_text) None), st)
                                    else answers_branch_v2 oc u s t xs res st
                                | _ \<Rightarrow>
                                    (Inr (json res 400 (Text missing_answers_text) None), st)))
                        else if ty = Str (js ''result'') then
                          result_branch_v2 oc payload u s t res st
                        else if tostring_throws ty then (Inl cannot_convert, st)
                        else (Inr (json res 400 (InvalidPayloadType ty) None), st))))"

definition handler_v2 :: "outcome \<Rightarrow> request \<Rightarrow> store \<Rightarrow> (thrown + response) \<times> store" where
  "handler_v2 oc req st =
     (let res = setCorsHeaders new_response in
      if req_method req = js ''OPTIONS'' then (Inr (end_response res 200), st)
      else if req_method req \<noteq> js ''POST'' then
        (Inr (json (setHeader ''Allow'' [''POST'', ''OPTIONS''] res) 405
                (Text ''Method Not Allowed'') None), st)
      else
        (case handler_try_v2 oc req res st of
           (Inr r, st') \<Rightarrow> (Inr r, st')
         | (Inl err, st') \<Rightarrow> (handler_catch_v2 res err, st')))"

section \<open>Notions used to state the properties\<close>

text \<open>A string that is not empty, an array and its elements, \<open>null\<close> or \<open>undefined\<close>.\<close>

definition nonempty_string :: "jsval \<Rightarrow> bool" where
  "nonempty_string v \<longleftrightarrow> (case v of Str s \<Rightarrow> s \<noteq> [] | _ \<Rightarrow> False)"

fun elements :: "jsval \<Rightarrow> jsval list" where
  "elements (Arr xs) = xs"
| "elements v = []"

definition nonempty_array :: "jsval \<Rightarrow> bool" where
  "nonempty_array v \<longleftrightarrow> (case v of Arr xs \<Rightarrow> xs \<noteq> [] | _ \<Rightarrow> False)"

definition nullish :: "jsval \<Rightarrow> bool" where
  "nullish v \<longleftrightarrow> v = Null \<or> v = Undefined"

text \<open>
  An answer as the specification describes a refused one: \<open>question_number\<close> undefined
  or null, a falsy \<open>question_text\<close>, or \<open>answer_value\<close> undefined.
\<close>

definition answer_bad :: "jsval \<Rightarrow> bool" where
  "answer_bad a \<longleftrightarrow>
     getprop a (js ''question_number'') = Inr Undefined
     \<or> getprop a (js ''question_number'') = Inr Null
     \<or> (case getprop a (js ''question_text'') of Inr q \<Rightarrow> \<not> truthy q | Inl e \<Rightarrow> False)
     \<or> getprop a (js ''answer_value'') = Inr Undefined"

text \<open>An element at which \<open>answers.forEach\<close> stops: \<open>null\<close>, \<open>undefined\<close> or a refused answer.\<close>

definition offending :: "jsval \<Rightarrow> bool" where
  "offending a \<longleftrightarrow> nullish a \<or> answer_bad a"

text \<open>
  The declared shape of an answer: an integer \<open>question_number\<close> and a non-empty string
  as \<open>question_text\<close>.
\<close>

definition is_integer :: "jsval \<Rightarrow> bool" where
  "is_integer v \<longleftrightarrow> (case v of Num (Finite r) \<Rightarrow> of_int \<lfloor>r\<rfloor> = r | _ \<Rightarrow> False)"

definition answer_shape :: "jsval \<Rightarrow> bool" where
  "answer_shape a \<longleftrightarrow>
     (case getprop a (js ''question_number'') of Inr n \<Rightarrow> is_integer n | Inl e \<Rightarrow> False)
     \<and> (case getprop a (js ''question_text'') of Inr q \<Rightarrow> nonempty_string q | Inl e \<Rightarrow> False)"

text \<open>The error thrown by \<open>validateAnswers\<close> for a refused answer.\<close>

definition invalid_answer :: "jsval \<Rightarrow> thrown" where
  "invalid_answer a = \<lparr>cls = ValidationError, msg = InvalidAnswerFormat a, isValidationError = False\<rparr>"


text \<open>A \<open>profileUrl\<close> that is a string starting with the fixed prefix.\<close>

definition has_profile_prefix :: "jsval \<Rightarrow> bool" where
  "has_profile_prefix url \<longleftrightarrow> (case url of Str s \<Rightarrow> startsWith s profile_prefix | _ \<Rightarrow> False)"

text \<open>
  The payloads of the scenarios of the specification, with the percent of \<open>mind\<close> and
  the \<open>profileUrl\<close> left open.
\<close>

definition trait_score :: "jsnum \<Rightarrow> string \<Rightarrow> jsval" where
  "trait_score p ty = Obj [(js ''percent'', Num p), (js ''type'', Str (js ty))]"

definition example_traits :: "jsnum \<Rightarrow> jsval" where
  "example_traits p =
     Obj [(js ''mind'', trait_score p ''Introverted''),
          (js ''energy'', trait_score (Finite 0) ''Intuitive''),
          (js ''nature'', trait_score (Finite 100) ''Thinking''),
          (js ''tactics'', trait_score (Finite 40) ''Judging''),
          (js ''identity'', trait_score (Finite 50) ''Assertive'')]"

definition example_result :: "jsval \<Rightarrow> jsval" where
  "example_result url =
     Obj [(js ''type'', Str (js ''result'')),
          (js ''profileUrl'', url),
          (js ''mbtiResult'', Str (js ''INTJ Architect'')),
          (js ''mbtiCode'', Str (js ''INTJ'')),
          (js ''traits'', example_traits (Finite 60)),
          (js ''userId'', Str (js ''u1'')),
          (js ''sessionId'', Str (js ''s1'')),
          (js ''timestamp'', Str (js ''2024-01-01T00:00:00Z''))]"

text \<open>The \<open>answer_label\<close> parameter of an insert statement of the answers table.\<close>

fun stmt_label :: "stmt \<Rightarrow> jsval option" where
  "stmt_label (InsertAnswer u s n q v l t) = Some l"
| "stmt_label (InsertEvent u s n t) = None"
| "stmt_label (InsertResult ps) = None"

text \<open>The two event names of the dispatch.\<close>

definition event_names :: "jsval set" where
  "event_names = {Str (js ''test_started''), Str (js ''test_finished'')}"

text \<open>Requests, an empty store and a store failure for the scenarios.\<close>

definition example_event :: "string \<Rightarrow> jsval" where
  "example_event name =
     Obj [(js ''type'', Str (js ''event'')),
          (js ''eventName'', Str (js name)),
          (js ''userId'', Str (js ''u1'')),
          (js ''sessionId'', Str (js ''s1'')),
          (js ''timestamp'', Str (js ''2024-01-01T00:00:00Z''))]"

definition post :: "jsval \<Rightarrow> request" where
  "post payload = \<lparr>req_method = js ''POST'', req_body = Inr payload\<rparr>"

definition empty_store :: store where
  "empty_store = \<lparr>rows = [], calls = []\<rparr>"

definition store_down :: thrown where
  "store_down = \<lparr>cls = PlainError, msg = Msg (js ''connection refused''), isValidationError = False\<rparr>"

text \<open>
  The value read under a key, \<open>undefined\<close> where the read throws, and the insert
  statement that the callbacks of \<open>answers.map\<close> build for an answer.
\<close>

definition field :: "jsval \<Rightarrow> jsstring \<Rightarrow> jsval" where
  "field v k = (case getprop v k of Inr x \<Rightarrow> x | Inl e \<Rightarrow> Undefined)"

definition answer_stmt :: "jsval \<Rightarrow> jsval \<Rightarrow> jsval \<Rightarrow> jsval \<Rightarrow> stmt" where
  "answer_stmt u s t a =
     InsertAnswer u s (field a (js ''question_number'')) (field a (js ''question_text''))
       (field a (js ''answer_value''))
       (if truthy (field a (js ''answer_label'')) then field a (js ''answer_label'')
        else Str (js ''N/A''))
       t"

text \<open>The answers requests of the scenarios.\<close>

definition example_answers :: "jsval list \<Rightarrow> jsval" where
  "example_answers xs =
     Obj [(js ''type'', Str (js ''answers'')),
          (js ''userId'', Str (js ''u1'')),
          (js ''sessionId'', Str (js ''s1'')),
          (js ''timestamp'', Str (js ''2024-01-01T00:00:00Z'')),
          (js ''answers'', Arr xs)]"

definition answer_1 :: jsval where
  "answer_1 = Obj [(js ''question_number'', Num (Finite 1)),
                   (js ''question_text'', Str (js ''Q1'')),
                   (js ''answer_value'', Num (Finite 3))]"

definition answer_2 :: jsval where
  "answer_2 = Obj [(js ''question_text'', Str (js ''Q2''))]"

text \<open>A request whose body the platform's parser refuses.\<close>

definition bad_json :: thrown where
  "bad_json = \<lparr>cls = SyntaxError, msg = Msg (js ''Unexpected end of JSON input''),
               isValidationError = False\<rparr>"

definition malformed :: request where
  "malformed = \<lparr>req_method = js ''POST'', req_body = Inl bad_json\<rparr>"

section \<open>Basic facts\<close>

subsection \<open>Strings and property reads\<close>

lemma js_eq_iff [simp]: "js a = js b \<longleftrightarrow> a = b"
  unfolding js_def by (simp add: inj_on_def)

lemma js_Nil_iff [simp]: "js a = [] \<longleftrightarrow> a = []"
  by (simp add: js_def)

lemma getprop_defined: "\<not> nullish v \<Longrightarrow> \<exists>x. getprop v k = Inr x"
  by (cases v) (simp_all add: nullish_def)

lemma getprop_Inr_not_nullish: "getprop v k = Inr x \<Longrightarrow> \<not> nullish v"
  by (cases v) (simp_all add: nullish_def)

lemma getprop_nullish: "nullish v \<Longrightarrow> \<exists>e. getprop v k = Inl e \<and> cls e = TypeError"
  by (cases v) (simp_all add: nullish_def cannot_read_def)

lemma destructure_non_nullish: "\<not> nullish v \<Longrightarrow> destructure src v k = getprop v k"
  by (cases v) (simp_all add: nullish_def)

lemma destructure_truthy [simp]: "truthy v \<Longrightarrow> destructure src v k = getprop v k"
  by (cases v) simp_all

lemma destructure_nullish:
  "nullish v \<Longrightarrow> \<exists>e. destructure src v k = Inl e \<and> cls e = TypeError"
  by (cases v) (simp_all add: nullish_def cannot_destructure_def)

lemma nonempty_string_iff: "nonempty_string v \<longleftrightarrow> truthy v \<and> typeof v = TString"
  by (cases v) (simp_all add: nonempty_string_def)

subsection \<open>The validation of answers\<close>

lemma answer_refused_non_nullish:
  "\<not> nullish a \<Longrightarrow> answer_refused a = Inr (answer_bad a)"
  by (cases a) (auto simp add: answer_refused_def answer_bad_def nullish_def split: option.splits)

lemma answer_refused_nullish:
  "nullish a \<Longrightarrow> \<exists>e. answer_refused a = Inl e \<and> cls e = TypeError"
  using getprop_nullish [of a "js ''question_number''"]
  by (auto simp add: answer_refused_def)

lemma forEach_answer_none_offending:
  "find offending xs = None \<Longrightarrow> forEach_answer xs = Inr ()"
  by (induction xs)
    (auto simp add: offending_def answer_refused_non_nullish split: if_splits)

lemma forEach_answer_first_refused:
  "find offending xs = Some a \<Longrightarrow> \<not> nullish a \<Longrightarrow> forEach_answer xs = Inl (invalid_answer a)"
  by (induction xs)
    (auto simp add: offending_def answer_refused_non_nullish invalid_answer_def
       split: if_splits)

lemma forEach_answer_first_nullish:
  "find offending xs = Some a \<Longrightarrow> nullish a \<Longrightarrow>
   \<exists>e. forEach_answer xs = Inl e \<and> cls e = TypeError"
proof (induction xs)
  case Nil
  then show ?case by simp
next
  case (Cons x xs)
  show ?case
  proof (cases "offending x")
    case True
    with Cons.prems have "x = a" by simp
    with Cons.prems(2) answer_refused_nullish [of x] show ?thesis by auto
  next
    case False
    then have "answer_refused x = Inr False"
      by (simp add: offending_def answer_refused_non_nullish)
    with False Cons show ?thesis by simp
  qed
qed

lemma find_offending_Some: "find offending xs = Some a \<Longrightarrow> a \<in> set xs \<and> offending a"
  by (auto simp add: find_Some_iff)

lemma forEach_answer_Inr:
  "forEach_answer xs = Inr u \<Longrightarrow> a \<in> set xs \<Longrightarrow> answer_refused a = Inr False"
  by (induction xs) (auto split: sum.splits if_splits)

lemma answer_refused_False:
  "answer_refused a = Inr False \<longleftrightarrow>
     (\<exists>n q v. getprop a (js ''question_number'') = Inr n \<and> n \<noteq> Undefined \<and> n \<noteq> Null
        \<and> getprop a (js ''question_text'') = Inr q \<and> truthy q
        \<and> getprop a (js ''answer_value'') = Inr v \<and> v \<noteq> Undefined)"
proof (cases "nullish a")
  case True
  then obtain e where "getprop a (js ''question_number'') = Inl e"
    using getprop_nullish by blast
  then show ?thesis by (simp add: answer_refused_def)
next
  case False
  obtain n where n: "getprop a (js ''question_number'') = Inr n"
    using getprop_defined [OF False] by blast
  obtain q where q: "getprop a (js ''question_text'') = Inr q"
    using getprop_defined [OF False] by blast
  obtain v where v: "getprop a (js ''answer_value'') = Inr v"
    using getprop_defined [OF False] by blast
  show ?thesis by (simp add: answer_refused_def n q v)
qed

text \<open>
  What \<open>validateAnswers\<close> does on every argument: it throws a ValidationError when the
  argument is not a non-empty array or when the first element at which the loop stops is
  a refused answer, and it returns the argument when the loop stops nowhere.
\<close>

lemma validateAnswers_outcome:
  "((\<exists>e. validateAnswers answers = Inl e \<and> cls e = ValidationError)
      \<longleftrightarrow> \<not> nonempty_array answers
          \<or> (\<exists>a. find offending (elements answers) = Some a \<and> \<not> nullish a))
   \<and> (validateAnswers answers = Inr answers
      \<longleftrightarrow> nonempty_array answers \<and> (\<forall>a\<in>set (elements answers). \<not> offending a))"
proof (cases answers)
  case (Arr xs)
  show ?thesis
  proof (cases "find offending xs")
    case None
    then have "\<forall>a\<in>set xs. \<not> offending a" by (simp add: find_None_iff)
    with None Arr show ?thesis
      by (auto simp add: validateAnswers_def nonempty_array_def validation_error_def
            forEach_answer_none_offending)
  next
    case (Some b)
    note b = find_offending_Some [OF Some]
    then have ne: "xs \<noteq> []" by auto
    show ?thesis
    proof (cases "nullish b")
      case True
      from forEach_answer_first_nullish [OF Some True]
      obtain e where "forEach_answer xs = Inl e" "cls e = TypeError" by blast
      with Some Arr True b ne show ?thesis
        by (auto simp add: validateAnswers_def nonempty_array_def)
    next
      case False
      with Some Arr b ne show ?thesis
        by (auto simp add: validateAnswers_def nonempty_array_def invalid_answer_def
              forEach_answer_first_refused [OF Some False])
    qed
  qed
qed (simp_all add: validateAnswers_def nonempty_array_def validation_error_def)


subsection \<open>The validation of traits\<close>

lemma trim_empty_iff: "trim s = [] \<longleftrightarrow> (\<forall>c\<in>set s. is_js_space c)"
proof -
  have "(\<forall>c\<in>set (dropWhile is_js_space s). is_js_space c) \<longleftrightarrow> (\<forall>c\<in>set s. is_js_space c)"
  proof
    assume a: "\<forall>c\<in>set (dropWhile is_js_space s). is_js_space c"
    have "dropWhile is_js_space s = []"
    proof (rule ccontr)
      assume n: "dropWhile is_js_space s \<noteq> []"
      then have "\<not> is_js_space (hd (dropWhile is_js_space s))" by (rule hd_dropWhile)
      moreover from n have "hd (dropWhile is_js_space s) \<in> set (dropWhile is_js_space s)"
        by simp
      ultimately show False using a by blast
    qed
    then show "\<forall>c\<in>set s. is_js_space c" by simp
  next
    assume "\<forall>c\<in>set s. is_js_space c"
    then show "\<forall>c\<in>set (dropWhile is_js_space s). is_js_space c"
      using set_dropWhileD by fastforce
  qed
  then show ?thesis by (simp add: trim_def)
qed

lemma percent_range_iff:
  "\<not> num_lt n (Finite 0) \<and> \<not> num_lt (Finite 100) n
     \<longleftrightarrow> n = NaN \<or> (\<exists>r. n = Finite r \<and> 0 \<le> r \<and> r \<le> 100)"
  by (cases n) auto

lemma percent_range_conj:
  "(\<not> num_lt n (Finite 0) \<and> \<not> num_lt (Finite 100) n \<and> P)
     \<longleftrightarrow> ((n = NaN \<or> (\<exists>r. n = Finite r \<and> 0 \<le> r \<and> r \<le> 100)) \<and> P)"
  using percent_range_iff [of n] by blast

lemma trait_fails_Obj:
  "trait_fails (Obj fs) k = Inr False \<or> trait_fails (Obj fs) k = Inr True"
proof (cases "map_of fs k")
  case None
  then show ?thesis by (simp add: trait_fails_def)
next
  case (Some t)
  show ?thesis
  proof (cases "truthy t")
    case False
    with Some show ?thesis by (simp add: trait_fails_def)
  next
    case True
    then have nn: "\<not> nullish t" by (auto simp add: nullish_def)
    obtain p where p: "getprop t (js ''percent'') = Inr p" using getprop_defined [OF nn] by blast
    obtain ty where ty: "getprop t (js ''type'') = Inr ty" using getprop_defined [OF nn] by blast
    from Some True p ty show ?thesis
      by (simp add: trait_fails_def split: jsval.split)
  qed
qed



text \<open>
  Both comparisons of the range test are false for NaN, so a NaN percent set by hand gets
  through. No JSON text denotes NaN; the property of \<open>isValidTraitObject\<close> below is
  stated for the arguments without it.
\<close>

lemma trait_fails_NaN:
  "trait_fails (Obj [(k, Obj [(js ''percent'', Num NaN), (js ''type'', Str (js ''x''))])]) k
     = Inr False"
  by (simp add: trait_fails_def trim_def is_js_space_def js_def)

lemma traits_loop_Obj:
  "traits_loop (Obj fs) ks = Inr (\<forall>k\<in>set ks. trait_fails (Obj fs) k = Inr False)"
proof (induction ks)
  case Nil
  show ?case by simp
next
  case (Cons k ks)
  from trait_fails_Obj [of fs k] show ?case
  proof
    assume "trait_fails (Obj fs) k = Inr False"
    with Cons show ?thesis by simp
  next
    assume "trait_fails (Obj fs) k = Inr True"
    then show ?thesis by simp
  qed
qed

lemma traits_loop_Arr: "ks \<noteq> [] \<Longrightarrow> traits_loop (Arr xs) ks = Inr False"
  by (cases ks) (simp_all add: trait_fails_def)

lemma isValidTraitObject_total:
  "isValidTraitObject trs = Inr True \<or> isValidTraitObject trs = Inr False"
proof (cases trs)
  case (Obj fs)
  then show ?thesis by (auto simp add: isValidTraitObject_def traits_loop_Obj)
next
  case (Arr xs)
  have "requiredTraits \<noteq> []" by (simp add: requiredTraits_def)
  with Arr show ?thesis by (simp add: isValidTraitObject_def traits_loop_Arr)
qed (simp_all add: isValidTraitObject_def)

subsection \<open>The profile prefix\<close>

lemma profile_prefix_nonempty: "profile_prefix \<noteq> []"
  by (simp add: profile_prefix_def)

lemma has_profile_prefix_iff:
  "has_profile_prefix url \<longleftrightarrow>
     truthy url \<and> typeof url = TString
     \<and> (case url of Str s \<Rightarrow> startsWith s profile_prefix | _ \<Rightarrow> False)"
  using profile_prefix_nonempty
  by (cases url) (auto simp add: has_profile_prefix_def startsWith_def)

subsection \<open>The common fields and the dispatch\<close>

lemma getprop_defined_value:
  "getprop v k = Inr x \<Longrightarrow> x \<noteq> Undefined \<Longrightarrow> truthy v \<and> typeof v = TObject"
  by (cases v) simp_all

lemma validateCommonFields_Inr:
  assumes "validateCommonFields payload = Inr c"
  shows "getprop payload (js ''userId'') = Inr (userId c)"
    and "getprop payload (js ''sessionId'') = Inr (sessionId c)"
    and "getprop payload (js ''timestamp'') = Inr (timestamp c)"
    and "nonempty_string (userId c)"
    and "nonempty_string (sessionId c)"
    and "nonempty_string (timestamp c)"
proof -
  have nn: "\<not> nullish payload"
  proof
    assume "nullish payload"
    then obtain e where "destructure (js ''payload'') payload (js ''userId'') = Inl e"
      using destructure_nullish by blast
    with assms show False by (simp add: validateCommonFields_def)
  qed
  obtain u where u: "getprop payload (js ''userId'') = Inr u"
    using getprop_defined [OF nn] by blast
  obtain s where s: "getprop payload (js ''sessionId'') = Inr s"
    using getprop_defined [OF nn] by blast
  obtain t where t: "getprop payload (js ''timestamp'') = Inr t"
    using getprop_defined [OF nn] by blast
  from assms u s t have "c = \<lparr>userId = u, sessionId = s, timestamp = t\<rparr>
      \<and> nonempty_string u \<and> nonempty_string s \<and> nonempty_string t"
    by (auto simp add: validateCommonFields_def destructure_non_nullish [OF nn]
          nonempty_string_iff split: if_splits)
  with u s t show "getprop payload (js ''userId'') = Inr (userId c)"
    and "getprop payload (js ''sessionId'') = Inr (sessionId c)"
    and "getprop payload (js ''timestamp'') = Inr (timestamp c)"
    and "nonempty_string (userId c)"
    and "nonempty_string (sessionId c)"
    and "nonempty_string (timestamp c)"
    by simp_all
qed

lemma common_fields_missing_iff:
  "common_fields_missing u s t \<longleftrightarrow> \<not> (nonempty_string u \<and> nonempty_string s \<and> nonempty_string t)"
  by (auto simp add: common_fields_missing_def nonempty_string_iff)

lemma getprop_Str_object:
  "getprop v k = Inr (Str x) \<Longrightarrow> truthy v \<and> typeof v = TObject"
  using getprop_defined_value [of v k "Str x"] by simp

lemma event_names_convert: "n \<in> event_names \<Longrightarrow> \<not> tostring_throws n"
  by (auto simp add: event_names_def)

lemma event_names_dispatch:
  "getprop payload (js ''eventName'') = Inr n \<Longrightarrow>
   is_event_dispatch payload (Str (js ''event'')) = Inr (n \<in> event_names)"
  by (simp add: is_event_dispatch_def event_names_def)

lemma example_event_common:
  "validateCommonFields (example_event name)
     = Inr \<lparr>userId = Str (js ''u1''), sessionId = Str (js ''s1''),
            timestamp = Str (js ''2024-01-01T00:00:00Z'')\<rparr>"
  by (simp add: validateCommonFields_def example_event_def)

subsection \<open>Statements built from answers\<close>

lemma getprop_field: "\<not> nullish v \<Longrightarrow> getprop v k = Inr (field v k)"
  using getprop_defined [of v k] by (auto simp add: field_def)

lemma answer_refused_False_D:
  "answer_refused a = Inr False \<Longrightarrow> \<not> nullish a \<and> \<not> answer_bad a"
proof -
  assume a: "answer_refused a = Inr False"
  have "\<not> nullish a"
  proof
    assume "nullish a"
    then obtain e where "answer_refused a = Inl e" using answer_refused_nullish by blast
    with a show False by simp
  qed
  with a show ?thesis by (simp add: answer_refused_non_nullish)
qed

lemma forEach_answer_Inr_all:
  "forEach_answer xs = Inr u \<Longrightarrow> \<forall>a\<in>set xs. \<not> nullish a \<and> \<not> answer_bad a"
  using forEach_answer_Inr answer_refused_False_D by blast

lemma answer_query_non_nullish:
  "\<not> nullish a \<Longrightarrow>
   answer_query c a = Inr (answer_stmt (userId c) (sessionId c) (timestamp c) a)"
  by (simp add: answer_query_def answer_stmt_def getprop_field js_or_def)

lemma map_throwing_total:
  "\<forall>x\<in>set xs. f x = Inr (g x) \<Longrightarrow> map_throwing f xs = Inr (map g xs)"
  by (induction xs) simp_all

lemma map_throwing_Inr:
  "map_throwing f xs = Inr ys \<Longrightarrow> x \<in> set xs \<Longrightarrow> \<exists>y. f x = Inr y"
  by (induction xs arbitrary: ys) (auto split: sum.splits)

lemma answer_query_v2_cases:
  "\<not> nullish a \<Longrightarrow>
   answer_query_v2 u s t a =
     (if answer_bad a then
        Inl \<lparr>cls = PlainError, msg = InvalidAnswerFormat a, isValidationError = True\<rparr>
      else Inr (answer_stmt u s t a))"
  by (simp add: answer_query_v2_def answer_stmt_def getprop_field js_or_def
        answer_refused_non_nullish)

lemma answer_query_v2_Inr:
  "answer_query_v2 u s t a = Inr q \<Longrightarrow> \<not> nullish a \<and> \<not> answer_bad a"
proof -
  assume a: "answer_query_v2 u s t a = Inr q"
  have n: "\<not> nullish a"
  proof
    assume "nullish a"
    then obtain e where "answer_refused a = Inl e" using answer_refused_nullish by blast
    with a show False by (simp add: answer_query_v2_def)
  qed
  with a show ?thesis by (auto simp add: answer_query_v2_cases split: if_splits)
qed

lemma answer_query_v2_nullish:
  "nullish a \<Longrightarrow> \<exists>e. answer_query_v2 u s t a = Inl e \<and> \<not> isValidationError e"
  by (cases a) (simp_all add: nullish_def answer_query_v2_def answer_refused_def cannot_read_def)

lemma map_throwing_v2_none_offending:
  "find offending xs = None \<Longrightarrow>
   map_throwing (answer_query_v2 u s t) xs = Inr (map (answer_stmt u s t) xs)"
  by (induction xs) (auto simp add: offending_def answer_query_v2_cases split: if_splits)

lemma map_throwing_v2_first_refused:
  "find offending xs = Some a \<Longrightarrow> \<not> nullish a \<Longrightarrow>
   map_throwing (answer_query_v2 u s t) xs
     = Inl \<lparr>cls = PlainError, msg = InvalidAnswerFormat a, isValidationError = True\<rparr>"
  by (induction xs) (auto simp add: offending_def answer_query_v2_cases split: if_splits)

lemma map_throwing_v2_first_nullish:
  "find offending xs = Some a \<Longrightarrow> nullish a \<Longrightarrow>
   \<exists>e. map_throwing (answer_query_v2 u s t) xs = Inl e \<and> \<not> isValidationError e"
proof (induction xs)
  case Nil
  then show ?case by simp
next
  case (Cons x xs)
  show ?case
  proof (cases "offending x")
    case True
    with Cons.prems have "x = a" by simp
    with Cons.prems(2) answer_query_v2_nullish [of x u s t] show ?thesis by auto
  next
    case False
    then have "answer_query_v2 u s t x = Inr (answer_stmt u s t x)"
      by (simp add: offending_def answer_query_v2_cases)
    with False Cons show ?thesis by auto
  qed
qed

lemma none_offending: "(\<forall>a\<in>set xs. \<not> nullish a \<and> \<not> answer_bad a) \<Longrightarrow> find offending xs = None"
  by (simp add: find_None_iff offending_def)

subsection \<open>The answers path of the handler and of the second variant\<close>

lemma validateAnswers_valid:
  assumes "xs \<noteq> []" and "\<forall>a\<in>set xs. \<not> nullish a \<and> \<not> answer_bad a"
  shows "validateAnswers (Arr xs) = Inr (Arr xs)"
proof -
  from assms(1) show ?thesis
    by (simp add: validateAnswers_def forEach_answer_none_offending [OF none_offending [OF assms(2)]])
qed

lemma validateAnswers_first_bad:
  assumes "find offending xs = Some a" and "\<not> nullish a"
  shows "validateAnswers (Arr xs) = Inl (invalid_answer a)"
proof -
  from assms(1) have "xs \<noteq> []" by auto
  then show ?thesis
    by (simp add: validateAnswers_def forEach_answer_first_refused [OF assms])
qed

lemma validateAnswers_first_nullish:
  assumes "find offending xs = Some a" and "nullish a"
  shows "\<exists>e. validateAnswers (Arr xs) = Inl e \<and> cls e = TypeError"
proof -
  from assms(1) have "xs \<noteq> []" by auto
  with forEach_answer_first_nullish [OF assms] show ?thesis
    by (auto simp add: validateAnswers_def)
qed

lemma validateAnswers_refused:
  assumes "\<exists>a\<in>set xs. nullish a \<or> answer_bad a"
  shows "\<exists>e. validateAnswers (Arr xs) = Inl e"
proof (cases "forEach_answer xs")
  case (Inl e)
  then show ?thesis by (simp add: validateAnswers_def)
next
  case (Inr u)
  with assms forEach_answer_Inr_all show ?thesis by blast
qed

lemma handler_answers_route:
  assumes "req_method req = js ''POST''"
    and "req_body req = Inr payload"
    and "getprop payload (js ''type'') = Inr (Str (js ''answers''))"
  shows "handler oc req st =
           (case handleAnswers oc payload (setCorsHeaders new_response) st of
              (Inr r, st') \<Rightarrow> (Inr r, st')
            | (Inl err, st') \<Rightarrow> (handler_catch (setCorsHeaders new_response) err, st'))"
  using assms getprop_Str_object [OF assms(3)]
  by (simp add: handler_def Let_def handlePreflight_def handler_try_def is_event_dispatch_def)

lemma handleAnswers_valid:
  assumes "validateCommonFields payload = Inr c"
    and "getprop payload (js ''answers'') = Inr (Arr xs)"
    and "xs \<noteq> []"
    and "\<forall>a\<in>set xs. \<not> nullish a \<and> \<not> answer_bad a"
  shows "handleAnswers Commit payload res st
           = (Inr (json res 201 (LoggedAnswers (length xs)) None),
              st\<lparr>rows := rows st
                     @ map (answer_stmt (userId c) (sessionId c) (timestamp c)) xs,
                  calls := calls st
                     @ [Transaction (map (answer_stmt (userId c) (sessionId c) (timestamp c)) xs)]\<rparr>)"
    and "handleAnswers (Reject e) payload res st
           = (Inr (json res 500 (Text ''Database error inserting answers'') (Some (msg e))),
              st\<lparr>calls := calls st
                     @ [Transaction (map (answer_stmt (userId c) (sessionId c) (timestamp c)) xs)]\<rparr>)"
proof -
  have q: "map_throwing (answer_query c) xs
             = Inr (map (answer_stmt (userId c) (sessionId c) (timestamp c)) xs)"
    using assms(4) by (intro map_throwing_total) (simp add: answer_query_non_nullish)
  note v = validateAnswers_valid [OF assms(3,4)]
  show "handleAnswers Commit payload res st
           = (Inr (json res 201 (LoggedAnswers (length xs)) None),
              st\<lparr>rows := rows st
                     @ map (answer_stmt (userId c) (sessionId c) (timestamp c)) xs,
                  calls := calls st
                     @ [Transaction (map (answer_stmt (userId c) (sessionId c) (timestamp c)) xs)]\<rparr>)"
    by (simp add: handleAnswers_def assms(1,2) v array_map_def q sql_transaction_def)
  show "handleAnswers (Reject e) payload res st
           = (Inr (json res 500 (Text ''Database error inserting answers'') (Some (msg e))),
              st\<lparr>calls := calls st
                     @ [Transaction (map (answer_stmt (userId c) (sessionId c) (timestamp c)) xs)]\<rparr>)"
    by (simp add: handleAnswers_def assms(1,2) v array_map_def q sql_transaction_def)
qed

lemma handleAnswers_first_bad:
  assumes "validateCommonFields payload = Inr c"
    and "getprop payload (js ''answers'') = Inr (Arr xs)"
    and "find offending xs = Some a"
    and "\<not> nullish a"
  shows "handleAnswers oc payload res st = (Inl (invalid_answer a), st)"
  by (simp add: handleAnswers_def assms(1,2) validateAnswers_first_bad [OF assms(3,4)])

lemma handleAnswers_first_nullish:
  assumes "validateCommonFields payload = Inr c"
    and "getprop payload (js ''answers'') = Inr (Arr xs)"
    and "find offending xs = Some a"
    and "nullish a"
  shows "\<exists>e. handleAnswers oc payload res st = (Inl e, st) \<and> cls e = TypeError"
  using validateAnswers_first_nullish [OF assms(3,4)]
  by (auto simp add: handleAnswers_def assms(1,2))

lemma handleAnswers_refused:
  assumes "validateCommonFields payload = Inr c"
    and "getprop payload (js ''answers'') = Inr (Arr xs)"
    and "\<exists>a\<in>set xs. nullish a \<or> answer_bad a"
  shows "\<exists>e. handleAnswers oc payload res st = (Inl e, st)"
  using validateAnswers_refused [OF assms(3)]
  by (auto simp add: handleAnswers_def assms(1,2))


lemma handler_answers_untouched:
  assumes "req_method req = js ''POST''"
    and "req_body req = Inr payload"
    and "getprop payload (js ''type'') = Inr (Str (js ''answers''))"
    and "validateCommonFields payload = Inr c"
    and "getprop payload (js ''answers'') = Inr (Arr xs)"
    and "\<exists>a\<in>set xs. nullish a \<or> answer_bad a"
  shows "snd (handler oc req st) = st"
proof -
  from handleAnswers_refused [OF assms(4,5,6)]
  obtain err where "handleAnswers oc payload (setCorsHeaders new_response) st = (Inl err, st)"
    by blast
  then show ?thesis by (simp add: handler_answers_route [OF assms(1-3)])
qed

lemma handler_answers_first_bad:
  assumes "req_method req = js ''POST''"
    and "req_body req = Inr payload"
    and "getprop payload (js ''type'') = Inr (Str (js ''answers''))"
    and "validateCommonFields payload = Inr c"
    and "getprop payload (js ''answers'') = Inr (Arr xs)"
    and "find offending xs = Some a"
    and "\<not> nullish a"
  shows "handler oc req st
           = (Inr (json (setCorsHeaders new_response) 400 (Text ''Data validation failed'')
                     (Some (InvalidAnswerFormat a))), st)"
  by (simp add: handler_answers_route [OF assms(1-3)]
        handleAnswers_first_bad [OF assms(4,5,6,7)] handler_catch_def invalid_answer_def)

lemma handler_answers_first_nullish:
  assumes "req_method req = js ''POST''"
    and "req_body req = Inr payload"
    and "getprop payload (js ''type'') = Inr (Str (js ''answers''))"
    and "validateCommonFields payload = Inr c"
    and "getprop payload (js ''answers'') = Inr (Arr xs)"
    and "find offending xs = Some a"
    and "nullish a"
  shows "\<exists>e::thrown. handler oc req st
           = (Inr (json (setCorsHeaders new_response) 500
                     (Text ''Internal Server Error processing request.'') (Some (msg e))), st)
             \<and> cls e = TypeError"
proof -
  from handleAnswers_first_nullish [OF assms(4-7)]
  obtain e where e: "handleAnswers oc payload (setCorsHeaders new_response) st = (Inl e, st)"
    "cls e = TypeError" by blast
  then have "handler oc req st
           = (Inr (json (setCorsHeaders new_response) 500
                     (Text ''Internal Server Error processing request.'') (Some (msg e))), st)"
    by (simp add: handler_answers_route [OF assms(1-3)] handler_catch_def)
  with e(2) show ?thesis by blast
qed

lemma handler_answers_valid:
  assumes "req_method req = js ''POST''"
    and "req_body req = Inr payload"
    and "getprop payload (js ''type'') = Inr (Str (js ''answers''))"
    and "validateCommonFields payload = Inr c"
    and "getprop payload (js ''answers'') = Inr (Arr xs)"
    and "xs \<noteq> []"
    and "\<forall>a\<in>set xs. \<not> nullish a \<and> \<not> answer_bad a"
  shows "handler Commit req st
           = (Inr (json (setCorsHeaders new_response) 201 (LoggedAnswers (length xs)) None),
              st\<lparr>rows := rows st
                     @ map (answer_stmt (userId c) (sessionId c) (timestamp c)) xs,
                  calls := calls st
                     @ [Transaction (map (answer_stmt (userId c) (sessionId c) (timestamp c)) xs)]\<rparr>)"
    and "handler (Reject e) req st
           = (Inr (json (setCorsHeaders new_response) 500
                     (Text ''Database error inserting answers'') (Some (msg e))),
              st\<lparr>calls := calls st
                     @ [Transaction (map (answer_stmt (userId c) (sessionId c) (timestamp c)) xs)]\<rparr>)"
  by (simp_all add: handler_answers_route [OF assms(1-3)] handleAnswers_valid [OF assms(4-7)])

lemma handler_v2_answers_route:
  assumes "req_method req = js ''POST''"
    and "req_body req = Inr payload"
    and "getprop payload (js ''type'') = Inr (Str (js ''answers''))"
    and "validateCommonFields payload = Inr c"
    and "getprop payload (js ''answers'') = Inr (Arr xs)"
    and "xs \<noteq> []"
  shows "handler_v2 oc req st
           = answers_branch_v2 oc (userId c) (sessionId c) (timestamp c) xs
               (setCorsHeaders new_response) st"
proof -
  note cf = validateCommonFields_Inr [OF assms(4)]
  have miss: "\<not> common_fields_missing (userId c) (sessionId c) (timestamp c)"
    using cf by (simp add: common_fields_missing_iff)
  have br: "\<exists>r st'. answers_branch_v2 oc (userId c) (sessionId c) (timestamp c) xs
               (setCorsHeaders new_response) st = (Inr r, st')"
    by (auto simp add: answers_branch_v2_def sql_transaction_def
          split: sum.splits outcome.splits)
  then show ?thesis
    using assms getprop_Str_object [OF assms(3)] cf(1-3) miss
    by (auto simp add: handler_v2_def Let_def handler_try_v2_def is_event_dispatch_def)
qed

lemma answers_branch_v2_untouched:
  assumes "\<exists>a\<in>set xs. nullish a \<or> answer_bad a"
  shows "snd (answers_branch_v2 oc u s t xs res st) = st"
proof (cases "map_throwing (answer_query_v2 u s t) xs")
  case (Inl e)
  then show ?thesis by (simp add: answers_branch_v2_def)
next
  case (Inr qs)
  from assms obtain a where a: "a \<in> set xs" "nullish a \<or> answer_bad a" by blast
  from map_throwing_Inr [OF Inr a(1)] obtain q where "answer_query_v2 u s t a = Inr q"
    by blast
  from answer_query_v2_Inr [OF this] a(2) show ?thesis by blast
qed

lemma answers_branch_v2_first_bad:
  assumes "find offending xs = Some a" and "\<not> nullish a"
  shows "answers_branch_v2 oc u s t xs res st
           = (Inr (json res 400 (Text ''Data validation failed for answers'')
                     (Some (InvalidAnswerFormat a))), st)"
  by (simp add: answers_branch_v2_def map_throwing_v2_first_refused [OF assms])

lemma answers_branch_v2_first_nullish:
  assumes "find offending xs = Some a" and "nullish a"
  shows "\<exists>e::thrown. answers_branch_v2 oc u s t xs res st
           = (Inr (json res 500 (Text ''Internal server error processing answers'')
                     (Some (msg e))), st)"
proof -
  from map_throwing_v2_first_nullish [OF assms, of u s t]
  obtain e where "map_throwing (answer_query_v2 u s t) xs = Inl e" "\<not> isValidationError e"
    by blast
  then have "answers_branch_v2 oc u s t xs res st
           = (Inr (json res 500 (Text ''Internal server error processing answers'')
                     (Some (msg e))), st)"
    by (simp add: answers_branch_v2_def)
  then show ?thesis by blast
qed

lemma answers_branch_v2_valid:
  assumes "\<forall>a\<in>set xs. \<not> nullish a \<and> \<not> answer_bad a"
  shows "answers_branch_v2 Commit u s t xs res st
           = (Inr (json res 201 (LoggedAnswers (length xs)) None),
              st\<lparr>rows := rows st @ map (answer_stmt u s t) xs,
                  calls := calls st @ [Transaction (map (answer_stmt u s t) xs)]\<rparr>)"
    and "answers_branch_v2 (Reject e) u s t xs res st
           = (Inr (json res 500 (Text ''Database error inserting answers'') (Some (msg e))),
              st\<lparr>calls := calls st @ [Transaction (map (answer_stmt u s t) xs)]\<rparr>)"
proof -
  note f = map_throwing_v2_none_offending [OF none_offending [OF assms]]
  show "answers_branch_v2 Commit u s t xs res st
           = (Inr (json res 201 (LoggedAnswers (length xs)) None),
              st\<lparr>rows := rows st @ map (answer_stmt u s t) xs,
                  calls := calls st @ [Transaction (map (answer_stmt u s t) xs)]\<rparr>)"
    by (simp add: answers_branch_v2_def f sql_transaction_def)
  show "answers_branch_v2 (Reject e) u s t xs res st
           = (Inr (json res 500 (Text ''Database error inserting answers'') (Some (msg e))),
              st\<lparr>calls := calls st @ [Transaction (map (answer_stmt u s t) xs)]\<rparr>)"
    by (simp add: answers_branch_v2_def f sql_transaction_def)
qed

text \<open>
  The answers path as a whole, for a POST request of type \<open>"answers"\<close> that passes the
  validation of the common fields and carries a non-empty array, on the handler and on the
  second variant. Where the loop stops at some element the store is left as it was; where
  it stops at a refused answer the response is 400 and names that answer; where it stops
  nowhere the store receives one transaction of one statement per answer, which adds every
  row or none.
\<close>

lemma handler_answers_contract:
  assumes "req_method req = js ''POST''"
    and "req_body req = Inr payload"
    and "getprop payload (js ''type'') = Inr (Str (js ''answers''))"
    and "validateCommonFields payload = Inr c"
    and "getprop payload (js ''answers'') = Inr (Arr xs)"
    and "xs \<noteq> []"
    and "qs = map (answer_stmt (userId c) (sessionId c) (timestamp c)) xs"
    and "res = setCorsHeaders new_response"
  shows "((\<exists>a\<in>set xs. offending a) \<longrightarrow>
            snd (handler oc req st) = st \<and> snd (handler_v2 oc req st) = st)
         \<and> (\<forall>a. find offending xs = Some a \<and> \<not> nullish a \<longrightarrow>
                handler oc req st
                  = (Inr (json res 400 (Text ''Data validation failed'')
                            (Some (InvalidAnswerFormat a))), st)
                \<and> handler_v2 oc req st
                  = (Inr (json res 400 (Text ''Data validation failed for answers'')
                            (Some (InvalidAnswerFormat a))), st))
         \<and> ((\<forall>a\<in>set xs. \<not> offending a) \<longrightarrow>
              handler Commit req st
                = (Inr (json res 201 (LoggedAnswers (length xs)) None),
                   st\<lparr>rows := rows st @ qs, calls := calls st @ [Transaction qs]\<rparr>)
              \<and> handler (Reject e) req st
                = (Inr (json res 500 (Text ''Database error inserting answers'') (Some (msg e))),
                   st\<lparr>calls := calls st @ [Transaction qs]\<rparr>)
              \<and> handler_v2 Commit req st
                = (Inr (json res 201 (LoggedAnswers (length xs)) None),
                   st\<lparr>rows := rows st @ qs, calls := calls st @ [Transaction qs]\<rparr>)
              \<and> handler_v2 (Reject e) req st
                = (Inr (json res 500 (Text ''Database error inserting answers'') (Some (msg e))),
                   st\<lparr>calls := calls st @ [Transaction qs]\<rparr>))"
proof (intro conjI impI allI)
  assume "\<exists>a\<in>set xs. offending a"
  then have r: "\<exists>a\<in>set xs. nullish a \<or> answer_bad a" by (simp add: offending_def)
  show "snd (handler oc req st) = st"
    by (rule handler_answers_untouched [OF assms(1-5) r])
  show "snd (handler_v2 oc req st) = st"
    by (simp add: handler_v2_answers_route [OF assms(1-6)] answers_branch_v2_untouched [OF r])
next
  fix a
  assume h: "find offending xs = Some a \<and> \<not> nullish a"
  then have f: "find offending xs = Some a" and nn: "\<not> nullish a" by simp_all
  show "handler oc req st
          = (Inr (json res 400 (Text ''Data validation failed'')
                    (Some (InvalidAnswerFormat a))), st)"
    unfolding assms(8) by (rule handler_answers_first_bad [OF assms(1-5) f nn])
  show "handler_v2 oc req st
          = (Inr (json res 400 (Text ''Data validation failed for answers'')
                    (Some (InvalidAnswerFormat a))), st)"
    by (simp add: handler_v2_answers_route [OF assms(1-6)] assms(8)
          answers_branch_v2_first_bad [OF f nn])
next
  assume "\<forall>a\<in>set xs. \<not> offending a"
  then have ok: "\<forall>a\<in>set xs. \<not> nullish a \<and> \<not> answer_bad a" by (simp add: offending_def)
  show "handler Commit req st
          = (Inr (json res 201 (LoggedAnswers (length xs)) None),
             st\<lparr>rows := rows st @ qs, calls := calls st @ [Transaction qs]\<rparr>)"
    unfolding assms(7,8) by (rule handler_answers_valid(1) [OF assms(1-6) ok])
  show "handler (Reject e) req st
          = (Inr (json res 500 (Text ''Database error inserting answers'') (Some (msg e))),
             st\<lparr>calls := calls st @ [Transaction qs]\<rparr>)"
    unfolding assms(7,8) by (rule handler_answers_valid(2) [OF assms(1-6) ok])
  show "handler_v2 Commit req st
          = (Inr (json res 201 (LoggedAnswers (length xs)) None),
             st\<lparr>rows := rows st @ qs, calls := calls st @ [Transaction qs]\<rparr>)"
    by (simp add: handler_v2_answers_route [OF assms(1-6)] assms(7,8)
          answers_branch_v2_valid(1) [OF ok])
  show "handler_v2 (Reject e) req st
          = (Inr (json res 500 (Text ''Database error inserting answers'') (Some (msg e))),
             st\<lparr>calls := calls st @ [Transaction qs]\<rparr>)"
    by (simp add: handler_v2_answers_route [OF assms(1-6)] assms(7,8)
          answers_branch_v2_valid(2) [OF ok])
qed

text \<open>
  Two scenarios of the specification: a second answer without \<open>question_number\<close> gives
  400 and no row, also when a \<open>null\<close> follows it; one valid answer gives 201 and one row.
\<close>

lemma handler_answers_scenarios:
  "handler Commit (post (example_answers [answer_1, answer_2, Null])) empty_store
     = (Inr (json (setCorsHeaders new_response) 400 (Text ''Data validation failed'')
               (Some (InvalidAnswerFormat answer_2))), empty_store)"
  "handler Commit (post (example_answers [answer_1])) empty_store
     = (Inr (json (setCorsHeaders new_response) 201 (LoggedAnswers 1) None),
        \<lparr>rows = [answer_stmt (Str (js ''u1'')) (Str (js ''s1''))
                    (Str (js ''2024-01-01T00:00:00Z'')) answer_1],
         calls = [Transaction [answer_stmt (Str (js ''u1'')) (Str (js ''s1''))
                    (Str (js ''2024-01-01T00:00:00Z'')) answer_1]]\<rparr>)"
proof -
  let ?c = "\<lparr>userId = Str (js ''u1''), sessionId = Str (js ''s1''),
             timestamp = Str (js ''2024-01-01T00:00:00Z'')\<rparr>"
  have m: "\<And>p. req_method (post p) = js ''POST''" by (simp add: post_def)
  have b: "\<And>p. req_body (post p) = Inr p" by (simp add: post_def)
  have t: "\<And>xs. getprop (example_answers xs) (js ''type'') = Inr (Str (js ''answers''))"
    by (simp add: example_answers_def)
  have c: "\<And>xs. validateCommonFields (example_answers xs) = Inr ?c"
    by (simp add: validateCommonFields_def example_answers_def)
  have a: "\<And>xs. getprop (example_answers xs) (js ''answers'') = Inr (Arr xs)"
    by (simp add: example_answers_def)
  have o1: "\<not> offending answer_1"
    by (simp add: offending_def nullish_def answer_bad_def answer_1_def)
  have o2: "offending answer_2" "\<not> nullish answer_2"
    by (simp_all add: offending_def nullish_def answer_bad_def answer_2_def)
  have f: "find offending [answer_1, answer_2, Null] = Some answer_2"
    using o1 o2 by simp
  show "handler Commit (post (example_answers [answer_1, answer_2, Null])) empty_store
     = (Inr (json (setCorsHeaders new_response) 400 (Text ''Data validation failed'')
               (Some (InvalidAnswerFormat answer_2))), empty_store)"
    by (rule handler_answers_first_bad [OF m b t c a f o2(2)])
  have ok: "\<forall>x\<in>set [answer_1]. \<not> nullish x \<and> \<not> answer_bad x"
    using o1 by (simp add: offending_def)
  have ne: "[answer_1] \<noteq> []" by simp
  from handler_answers_valid(1) [OF m b t c a ne ok, of empty_store]
  show "handler Commit (post (example_answers [answer_1])) empty_store
     = (Inr (json (setCorsHeaders new_response) 201 (LoggedAnswers 1) None),
        \<lparr>rows = [answer_stmt (Str (js ''u1'')) (Str (js ''s1''))
                    (Str (js ''2024-01-01T00:00:00Z'')) answer_1],
         calls = [Transaction [answer_stmt (Str (js ''u1'')) (Str (js ''s1''))
                    (Str (js ''2024-01-01T00:00:00Z'')) answer_1]]\<rparr>)"
    by (simp add: empty_store_def)
qed

text \<open>
  A \<open>type\<close> that cannot be converted to a string: the message of the last branch throws
  while it is built, and the \<open>catch\<close> block answers 500.
\<close>

lemma handler_type_not_convertible:
  "handler Commit (post (Obj [(js ''type'', Obj [(js ''toString'', Num (Finite 1))])]))
     empty_store
     = (Inr (json (setCorsHeaders new_response) 500
               (Text ''Internal Server Error processing request.'')
               (Some (msg cannot_convert))), empty_store)"
  by (simp add: handler_def Let_def handlePreflight_def handler_try_def is_event_dispatch_def
        post_def handler_catch_def cannot_convert_def)

subsection \<open>Errors and responses\<close>

lemma handleEvent_rejected:
  assumes "handleEvent (Reject e) payload res st = (x, st')" and "calls st' \<noteq> calls st"
  shows "\<exists>m. x = Inr (json res 500 m (Some (msg e)))"
  using assms
  by (auto simp add: handleEvent_def sql_execute_def split: sum.splits if_splits)

lemma handleAnswers_rejected:
  assumes "handleAnswers (Reject e) payload res st = (x, st')" and "calls st' \<noteq> calls st"
  shows "\<exists>m. x = Inr (json res 500 m (Some (msg e)))"
  using assms
  by (auto simp add: handleAnswers_def sql_transaction_def split: sum.splits)

lemma handleTestResult_rejected:
  assumes "handleTestResult (Reject e) payload res st = (x, st')" and "calls st' \<noteq> calls st"
  shows "\<exists>m. x = Inr (json res 500 m (Some (msg e)))"
  using assms
  by (auto simp add: handleTestResult_def sql_execute_def split: sum.splits)

lemma handler_try_rejected:
  assumes "handler_try (Reject e) req res st = (x, st')" and "calls st' \<noteq> calls st"
  shows "\<exists>m. x = Inr (json res 500 m (Some (msg e)))"
  using assms handleEvent_rejected [of e _ res st x st']
    handleAnswers_rejected [of e _ res st x st']
    handleTestResult_rejected [of e _ res st x st']
  by (auto simp add: handler_try_def split: sum.splits if_splits)

lemma handler_returns: "\<exists>r st'. handler oc req st = (Inr r, st')"
proof (cases "handler_try oc req (setCorsHeaders new_response) st")
  case (Pair x st')
  then show ?thesis
    by (cases x)
      (simp_all add: handler_def Let_def handlePreflight_def handler_catch_def)
qed

lemma handler_caught:
  assumes "req_method req = js ''POST''"
    and "handler_try oc req (setCorsHeaders new_response) st = (Inl e, st')"
  shows "\<exists>r. handler oc req st = (Inr r, st') \<and> (status r = 400 \<or> status r = 500)
           \<and> message r \<noteq> None \<and> error r = Some (msg e)"
  using assms
  by (simp add: handler_def Let_def handlePreflight_def handler_catch_def json_def)

lemma handler_rejected:
  assumes "handler (Reject e) req st = (Inr r, st')" and "calls st' \<noteq> calls st"
  shows "status r = 500 \<and> error r = Some (msg e)"
proof (cases "handler_try (Reject e) req (setCorsHeaders new_response) st")
  case (Pair x st2)
  from assms have post: "req_method req = js ''POST''"
    by (auto simp add: handler_def Let_def handlePreflight_def split: if_splits)
  with assms(1) Pair have "st2 = st'"
    by (cases x) (simp_all add: handler_def Let_def handlePreflight_def)
  with Pair assms(2) handler_try_rejected
  obtain m where "x = Inr (json (setCorsHeaders new_response) 500 m (Some (msg e)))"
    by blast
  with assms(1) Pair post show ?thesis
    by (auto simp add: handler_def Let_def handlePreflight_def json_def)
qed

lemma handler_v1_returns: "\<exists>r st'. handler_v1 oc req st = (Inr r, st')"
proof (cases "handler_try_v1 oc req (cors_headers_v1 new_response) st")
  case (Pair x st')
  then show ?thesis
    by (cases x) (simp_all add: handler_v1_def Let_def handler_catch_v1_def)
qed

lemma handler_v1_caught:
  assumes "req_method req = js ''POST''"
    and "handler_try_v1 oc req (cors_headers_v1 new_response) st = (Inl e, st')"
  shows "\<exists>r. handler_v1 oc req st = (Inr r, st') \<and> (status r = 400 \<or> status r = 500)
           \<and> message r \<noteq> None \<and> error r = Some (msg e)"
  using assms
  by (simp add: handler_v1_def Let_def handler_catch_v1_def json_def)

text \<open>The first log-answers variant passes \<open>answer_label\<close> to the statement as it is.\<close>

lemma answer_query_v1_label:
  assumes "answer_query_v1 u s t a = Inr q"
  shows "\<exists>l. getprop a (js ''answer_label'') = Inr l \<and> stmt_label q = Some l"
proof -
  have nn: "\<not> nullish a"
  proof
    assume "nullish a"
    then obtain e where "answer_refused a = Inl e" using answer_refused_nullish by blast
    with assms show False by (simp add: answer_query_v1_def)
  qed
  with assms show ?thesis
    by (auto simp add: answer_query_v1_def getprop_field answer_refused_non_nullish
          split: if_splits)
qed

section \<open>Properties of the validation helpers\<close>

text \<open>
  C5, as amended. For a payload whose three fields can be read, \<open>validateCommonFields\<close>
  throws a ValidationError exactly when one of \<open>userId\<close>, \<open>sessionId\<close>,
  \<open>timestamp\<close> is not a non-empty string (missing, of another type, or the empty string);
  when all three are non-empty strings it returns exactly those three fields.
\<close>

theorem validateCommonFields_nonempty_strings:
  assumes "getprop payload (js ''userId'') = Inr u"
    and "getprop payload (js ''sessionId'') = Inr s"
    and "getprop payload (js ''timestamp'') = Inr t"
  shows "((\<exists>e. validateCommonFields payload = Inl e \<and> cls e = ValidationError)
            \<longleftrightarrow> \<not> (nonempty_string u \<and> nonempty_string s \<and> nonempty_string t))
         \<and> (nonempty_string u \<and> nonempty_string s \<and> nonempty_string t
            \<longrightarrow> validateCommonFields payload = Inr \<lparr>userId = u, sessionId = s, timestamp = t\<rparr>)"
proof -
  from assms(1) have nn: "\<not> nullish payload" by (rule getprop_Inr_not_nullish)
  from assms show ?thesis
    by (auto simp add: validateCommonFields_def destructure_non_nullish [OF nn]
          nonempty_string_iff validation_error_def)
qed

theorem validateCommonFields_nonempty_strings_witness:
  "validateCommonFields
     (Obj [(js ''userId'', Str (js ''u1'')), (js ''sessionId'', Str (js ''s1'')),
           (js ''timestamp'', Str (js ''2024-01-01T00:00:00Z''))])
   = Inr \<lparr>userId = Str (js ''u1''), sessionId = Str (js ''s1''),
          timestamp = Str (js ''2024-01-01T00:00:00Z'')\<rparr>"
proof -
  let ?p = "Obj [(js ''userId'', Str (js ''u1'')), (js ''sessionId'', Str (js ''s1'')),
                 (js ''timestamp'', Str (js ''2024-01-01T00:00:00Z''))]"
  have a: "getprop ?p (js ''userId'') = Inr (Str (js ''u1''))" by simp
  have b: "getprop ?p (js ''sessionId'') = Inr (Str (js ''s1''))" by simp
  have c: "getprop ?p (js ''timestamp'') = Inr (Str (js ''2024-01-01T00:00:00Z''))" by simp
  have d: "nonempty_string (Str (js ''u1'')) \<and> nonempty_string (Str (js ''s1''))
           \<and> nonempty_string (Str (js ''2024-01-01T00:00:00Z''))"
    by (simp add: nonempty_string_def js_def)
  from validateCommonFields_nonempty_strings [OF a b c] d show ?thesis by blast
qed

text \<open>
  C5 as stated fails: with the empty string as \<open>userId\<close> all three fields are strings,
  and \<open>validateCommonFields\<close> throws.
\<close>

theorem validateCommonFields_empty_string_counterexample:
  "typeof (Str []) = TString \<and>
   validateCommonFields
     (Obj [(js ''userId'', Str []), (js ''sessionId'', Str (js ''s1'')),
           (js ''timestamp'', Str (js ''2024-01-01T00:00:00Z''))])
   = Inl (validation_error (js ''Missing or invalid userId (string required)''))"
  by (simp add: validateCommonFields_def)

text \<open>
  C6, at the input where the code departs from it. In \<open>[null, {}]\<close> the second
  element has no \<open>question_number\<close>, so a ValidationError is due; the loop reads
  \<open>question_number\<close> of the first element without a guard, and the error thrown is the
  TypeError of that read. With the two elements in the other order the ValidationError is
  thrown.
\<close>

theorem validateAnswers_null_element:
  "answer_bad (Obj [])
   \<and> validateAnswers (Arr [Null, Obj []]) = Inl (cannot_read (js ''null'') (js ''question_number''))
   \<and> cls (cannot_read (js ''null'') (js ''question_number'')) = TypeError
   \<and> validateAnswers (Arr [Obj [], Null]) = Inl (invalid_answer (Obj []))
   \<and> cls (invalid_answer (Obj [])) = ValidationError"
  by (simp add: answer_bad_def validateAnswers_def answer_refused_def cannot_read_def
        invalid_answer_def)


text \<open>
  C8, as amended. Every element of a sequence that \<open>validateAnswers\<close> accepts has a
  \<open>question_number\<close> that is neither undefined nor null, a truthy \<open>question_text\<close>
  and an \<open>answer_value\<close> that is not undefined. No check of a type is made.
\<close>

theorem validateAnswers_accepted_elements:
  assumes "validateAnswers answers = Inr r" and "a \<in> set (elements answers)"
  shows "r = answers
         \<and> (\<exists>n q v. getprop a (js ''question_number'') = Inr n \<and> n \<noteq> Undefined \<and> n \<noteq> Null
              \<and> getprop a (js ''question_text'') = Inr q \<and> truthy q
              \<and> getprop a (js ''answer_value'') = Inr v \<and> v \<noteq> Undefined)"
proof (cases answers)
  case (Arr xs)
  with assms have "forEach_answer xs = Inr ()" and "r = answers"
    by (auto simp add: validateAnswers_def split: if_splits sum.splits)
  moreover from Arr assms have "a \<in> set xs" by simp
  ultimately show ?thesis
    using forEach_answer_Inr answer_refused_False by blast
qed (use assms in simp_all)

theorem validateAnswers_accepted_elements_witness:
  "\<exists>n q v. getprop (Obj [(js ''question_number'', Num (Finite 1)),
                          (js ''question_text'', Str (js ''Q1'')),
                          (js ''answer_value'', Num (Finite 3))]) (js ''question_number'') = Inr n
       \<and> n \<noteq> Undefined \<and> n \<noteq> Null
       \<and> getprop (Obj [(js ''question_number'', Num (Finite 1)),
                       (js ''question_text'', Str (js ''Q1'')),
                       (js ''answer_value'', Num (Finite 3))]) (js ''question_text'') = Inr q
       \<and> truthy q
       \<and> getprop (Obj [(js ''question_number'', Num (Finite 1)),
                       (js ''question_text'', Str (js ''Q1'')),
                       (js ''answer_value'', Num (Finite 3))]) (js ''answer_value'') = Inr v
       \<and> v \<noteq> Undefined"
proof -
  let ?a = "Obj [(js ''question_number'', Num (Finite 1)),
                 (js ''question_text'', Str (js ''Q1'')),
                 (js ''answer_value'', Num (Finite 3))]"
  have ok: "validateAnswers (Arr [?a]) = Inr (Arr [?a])"
    by (simp add: validateAnswers_def answer_refused_def)
  have el: "?a \<in> set (elements (Arr [?a]))" by simp
  from validateAnswers_accepted_elements [OF ok el] show ?thesis by blast
qed

text \<open>
  C8 as stated fails: an answer whose \<open>question_number\<close> is 1.5 and whose
  \<open>question_text\<close> is \<open>true\<close> is accepted.
\<close>

theorem validateAnswers_shape_counterexample:
  "validateAnswers
     (Arr [Obj [(js ''question_number'', Num (Finite (3 / 2))),
                (js ''question_text'', Bool True),
                (js ''answer_value'', Num (Finite 0))]])
   = Inr (Arr [Obj [(js ''question_number'', Num (Finite (3 / 2))),
                (js ''question_text'', Bool True),
                (js ''answer_value'', Num (Finite 0))]])
   \<and> \<not> is_integer (Num (Finite (3 / 2)))
   \<and> \<not> nonempty_string (Bool True)
   \<and> \<not> answer_shape (Obj [(js ''question_number'', Num (Finite (3 / 2))),
                (js ''question_text'', Bool True),
                (js ''answer_value'', Num (Finite 0))])"
proof -
  have "\<lfloor>3 / 2 :: rat\<rfloor> = 1" by (rule floor_unique) simp_all
  then show ?thesis
    by (simp add: validateAnswers_def answer_refused_def is_integer_def answer_shape_def
          nonempty_string_def)
qed



text \<open>
  C9. For a payload whose \<open>profileUrl\<close> can be read, \<open>validateTestResult\<close> throws the
  validation error of the profileUrl check whenever \<open>profileUrl\<close> is not a string that
  starts with the fixed prefix, and never throws that error when it is one; every string
  made of the prefix and any text after it has the prefix.
\<close>

theorem validateTestResult_profileUrl:
  assumes "getprop payload (js ''profileUrl'') = Inr url"
  shows "(\<not> has_profile_prefix url \<longrightarrow>
            validateTestResult payload
              = Inl (validation_error (js ''Missing or invalid profileUrl format'')))
         \<and> (has_profile_prefix url \<longrightarrow>
              validateTestResult payload
                \<noteq> Inl (validation_error (js ''Missing or invalid profileUrl format'')))
         \<and> has_profile_prefix (Str (profile_prefix @ rest))"
proof -
  from assms have nn: "\<not> nullish payload" by (rule getprop_Inr_not_nullish)
  obtain mres where mres: "getprop payload (js ''mbtiResult'') = Inr mres"
    using getprop_defined [OF nn] by blast
  obtain code where code: "getprop payload (js ''mbtiCode'') = Inr code"
    using getprop_defined [OF nn] by blast
  obtain trs where trs: "getprop payload (js ''traits'') = Inr trs"
    using getprop_defined [OF nn] by blast
  have bad: "\<not> has_profile_prefix url \<Longrightarrow>
            validateTestResult payload
              = Inl (validation_error (js ''Missing or invalid profileUrl format''))"
    using assms mres code trs
    by (auto simp add: validateTestResult_def destructure_non_nullish [OF nn]
          has_profile_prefix_iff)
  have good: "has_profile_prefix url \<Longrightarrow>
            validateTestResult payload
              \<noteq> Inl (validation_error (js ''Missing or invalid profileUrl format''))"
    using assms mres code trs isValidTraitObject_total [of trs]
    by (auto simp add: validateTestResult_def destructure_non_nullish [OF nn]
          has_profile_prefix_iff validation_error_def)
  have "has_profile_prefix (Str (profile_prefix @ rest))"
    by (simp add: has_profile_prefix_def startsWith_def)
  with bad good show ?thesis by blast
qed

theorem validateTestResult_profileUrl_witness:
  "validateTestResult (example_result (Str (js ''https://www.16personalities.com/profile/abcd'')))
     = Inl (validation_error (js ''Missing or invalid profileUrl format''))
   \<and> validateTestResult (example_result (Str (profile_prefix @ js ''abcd'')))
     \<noteq> Inl (validation_error (js ''Missing or invalid profileUrl format''))"
proof -
  have g: "\<And>u. getprop (example_result u) (js ''profileUrl'') = Inr u"
    by (simp add: example_result_def)
  have n: "\<not> has_profile_prefix (Str (js ''https://www.16personalities.com/profile/abcd''))"
    by (simp add: has_profile_prefix_def startsWith_def profile_prefix_def js_def)
  have y: "has_profile_prefix (Str (profile_prefix @ js ''abcd''))"
    by (simp add: has_profile_prefix_def startsWith_def)
  from validateTestResult_profileUrl [OF g, of "Str (js ''https://www.16personalities.com/profile/abcd'')"]
       validateTestResult_profileUrl [OF g, of "Str (profile_prefix @ js ''abcd'')"] n y
  show ?thesis by blast
qed

section \<open>Properties of the handlers\<close>

text \<open>
  C7. For a POST request whose payload has type \<open>"event"\<close>: when \<open>eventName\<close> is
  neither \<open>"test_started"\<close> nor \<open>"test_finished"\<close> the handler answers 400 with the
  invalid payload type message and leaves the store as it was, no call made; the body of
  the handler hands the request to \<open>handleEvent\<close> exactly when \<open>eventName\<close> is one of
  the two names.
\<close>

theorem handler_event_dispatch:
  assumes "req_method req = js ''POST''"
    and "req_body req = Inr payload"
    and "getprop payload (js ''type'') = Inr (Str (js ''event''))"
    and "getprop payload (js ''eventName'') = Inr n"
  shows "(n \<notin> event_names \<longrightarrow>
            handler oc req st
              = (Inr (json (setCorsHeaders new_response) 400
                        (InvalidPayloadType (Str (js ''event''))) None), st))
         \<and> (n \<in> event_names \<longrightarrow>
              handler_try oc req res st = handleEvent oc payload res st)
         \<and> (n \<notin> event_names \<longrightarrow>
              handler_try oc req res st
                = (Inr (json res 400 (InvalidPayloadType (Str (js ''event''))) None), st))"
proof -
  from assms(3) have "truthy payload \<and> typeof payload = TObject"
    by (rule getprop_defined_value) simp
  with assms show ?thesis
    by (auto simp add: handler_def handlePreflight_def handler_try_def is_event_dispatch_def
          event_names_def)
qed


theorem handler_event_dispatch_witness:
  "handler Commit (post (example_event ''test_paused'')) empty_store
     = (Inr (json (setCorsHeaders new_response) 400
               (InvalidPayloadType (Str (js ''event''))) None), empty_store)
   \<and> handler_try Commit (post (example_event ''test_started'')) new_response empty_store
     = handleEvent Commit (example_event ''test_started'') new_response empty_store"
proof -
  have m: "\<And>p. req_method (post p) = js ''POST''" by (simp add: post_def)
  have b: "\<And>p. req_body (post p) = Inr p" by (simp add: post_def)
  have t: "\<And>n. getprop (example_event n) (js ''type'') = Inr (Str (js ''event''))"
    by (simp add: example_event_def)
  have e: "\<And>n. getprop (example_event n) (js ''eventName'') = Inr (Str (js n))"
    by (simp add: example_event_def)
  have n: "Str (js ''test_paused'') \<notin> event_names" by (simp add: event_names_def)
  have y: "Str (js ''test_started'') \<in> event_names" by (simp add: event_names_def)
  from handler_event_dispatch
         [of "post (example_event ''test_paused'')" "example_event ''test_paused''"
             "Str (js ''test_paused'')" Commit empty_store new_response, OF m b t e]
       handler_event_dispatch
         [of "post (example_event ''test_started'')" "example_event ''test_started''"
             "Str (js ''test_started'')" Commit empty_store new_response, OF m b t e]
       n y
  show ?thesis by blast
qed


text \<open>
  C3, as amended. For an event request that passes validation and whose insert the store
  rejects, the handler and the second log-answers variant answer 500 with the message of
  the store's error, and no row is added; the first log-answers variant swallows the
  failure and answers 200.
\<close>

theorem event_store_failure:
  assumes "req_method req = js ''POST''"
    and "req_body req = Inr payload"
    and "getprop payload (js ''type'') = Inr (Str (js ''event''))"
    and "getprop payload (js ''eventName'') = Inr n"
    and "n \<in> event_names"
    and "validateCommonFields payload = Inr c"
  shows "handler (Reject e) req st
           = (Inr (json (setCorsHeaders new_response) 500 (ErrorLoggingEvent n) (Some (msg e))),
              st\<lparr>calls := calls st
                   @ [Execute (InsertEvent (userId c) (sessionId c) n (timestamp c))]\<rparr>)
         \<and> handler_v2 (Reject e) req st
           = (Inr (json (setCorsHeaders new_response) 500 (ErrorLoggingEvent n) (Some (msg e))),
              st\<lparr>calls := calls st
                   @ [Execute (InsertEvent (userId c) (sessionId c) n (timestamp c))]\<rparr>)
         \<and> handler_v1 (Reject e) req st
           = (Inr (json (cors_headers_v1 new_response) 200 (EventReceived n) None),
              st\<lparr>calls := calls st
                   @ [Execute (InsertEvent (userId c) (sessionId c) n (timestamp c))]\<rparr>)"
proof -
  note obj = getprop_Str_object [OF assms(3)]
  note d = event_names_dispatch [OF assms(4)]
  note cf = validateCommonFields_Inr [OF assms(6)]
  have miss: "\<not> common_fields_missing (userId c) (sessionId c) (timestamp c)"
    using cf by (simp add: common_fields_missing_iff)
  have r: "handler (Reject e) req st
           = (Inr (json (setCorsHeaders new_response) 500 (ErrorLoggingEvent n) (Some (msg e))),
              st\<lparr>calls := calls st
                   @ [Execute (InsertEvent (userId c) (sessionId c) n (timestamp c))]\<rparr>)"
    using assms obj d event_names_convert [OF assms(5)]
    by (simp add: handler_def handlePreflight_def handler_try_def handleEvent_def
          sql_execute_def)
  have v2: "handler_v2 (Reject e) req st
           = (Inr (json (setCorsHeaders new_response) 500 (ErrorLoggingEvent n) (Some (msg e))),
              st\<lparr>calls := calls st
                   @ [Execute (InsertEvent (userId c) (sessionId c) n (timestamp c))]\<rparr>)"
    using assms obj d cf(1-3) miss
    by (simp add: handler_v2_def handler_try_v2_def sql_execute_def)
  have v1: "handler_v1 (Reject e) req st
           = (Inr (json (cors_headers_v1 new_response) 200 (EventReceived n) None),
              st\<lparr>calls := calls st
                   @ [Execute (InsertEvent (userId c) (sessionId c) n (timestamp c))]\<rparr>)"
    using assms obj d cf(1-3) miss
    by (simp add: handler_v1_def handler_try_v1_def sql_execute_def)
  from r v2 v1 show ?thesis by simp
qed

theorem event_store_failure_witness:
  "handler (Reject store_down) (post (example_event ''test_started'')) empty_store
     = (Inr (json (setCorsHeaders new_response) 500
               (ErrorLoggingEvent (Str (js ''test_started''))) (Some (msg store_down))),
        empty_store\<lparr>calls := calls empty_store
          @ [Execute (InsertEvent (Str (js ''u1'')) (Str (js ''s1'')) (Str (js ''test_started''))
                        (Str (js ''2024-01-01T00:00:00Z'')))]\<rparr>)"
proof -
  have m: "req_method (post (example_event ''test_started'')) = js ''POST''"
    by (simp add: post_def)
  have b: "req_body (post (example_event ''test_started'')) = Inr (example_event ''test_started'')"
    by (simp add: post_def)
  have t: "getprop (example_event ''test_started'') (js ''type'') = Inr (Str (js ''event''))"
    by (simp add: example_event_def)
  have n: "getprop (example_event ''test_started'') (js ''eventName'')
             = Inr (Str (js ''test_started''))"
    by (simp add: example_event_def)
  have y: "Str (js ''test_started'') \<in> event_names" by (simp add: event_names_def)
  from event_store_failure [OF m b t n y example_event_common, of store_down empty_store]
  show ?thesis by simp
qed

text \<open>
  C3 as stated fails on the first log-answers variant: the insert is rejected and the
  response is 200.
\<close>

theorem event_store_failure_swallowed_counterexample:
  "handler_v1 (Reject store_down) (post (example_event ''test_started'')) empty_store
     = (Inr (json (cors_headers_v1 new_response) 200
               (EventReceived (Str (js ''test_started''))) None),
        \<lparr>rows = [],
         calls = [Execute (InsertEvent (Str (js ''u1'')) (Str (js ''s1''))
                    (Str (js ''test_started'')) (Str (js ''2024-01-01T00:00:00Z'')))]\<rparr>)
   \<and> status (json (cors_headers_v1 new_response) 200
               (EventReceived (Str (js ''test_started''))) None) = 200"
  by (simp add: handler_v1_def handler_try_v1_def post_def example_event_def
        common_fields_missing_def is_event_dispatch_def sql_execute_def empty_store_def json_def)

text \<open>
  C10. For an answer that reaches statement construction, the callback of
  \<open>answers.map\<close> of the handler, and of the second and third log-answers variants (for
  an answer that their own test does not refuse), builds the insert statement whose
  \<open>answer_label\<close> parameter is the label of the answer when that is truthy and the
  string \<open>'N/A'\<close> when it is falsy: absent, null, the empty string or 0 are all replaced,
  and the parameter is never the empty string.
\<close>

theorem answer_label_default:
  assumes "getprop answer (js ''question_number'') = Inr n"
    and "getprop answer (js ''question_text'') = Inr q"
    and "getprop answer (js ''answer_value'') = Inr v"
    and "getprop answer (js ''answer_label'') = Inr l"
  shows "answer_query c answer
           = Inr (InsertAnswer (userId c) (sessionId c) n q v
                    (if truthy l then l else Str (js ''N/A'')) (timestamp c))
         \<and> (\<not> answer_bad answer \<longrightarrow>
              answer_query_v2 u s t answer
                = Inr (InsertAnswer u s n q v (if truthy l then l else Str (js ''N/A'')) t)
              \<and> answer_query_v3 u s t answer
                = Inr (InsertAnswer u s n q v (if truthy l then l else Str (js ''N/A'')) t))
         \<and> (l \<in> {Undefined, Null, Str [], Num (Finite 0)} \<longrightarrow>
              (if truthy l then l else Str (js ''N/A'')) = Str (js ''N/A''))
         \<and> (if truthy l then l else Str (js ''N/A'')) \<noteq> Str []"
proof -
  from assms(1) have nn: "\<not> nullish answer" by (rule getprop_Inr_not_nullish)
  have r: "answer_refused answer = Inr (answer_bad answer)"
    using nn by (rule answer_refused_non_nullish)
  have main: "answer_query c answer
           = Inr (InsertAnswer (userId c) (sessionId c) n q v
                    (if truthy l then l else Str (js ''N/A'')) (timestamp c))"
    by (simp add: answer_query_def assms js_or_def)
  have variants: "\<not> answer_bad answer \<Longrightarrow>
              answer_query_v2 u s t answer
                = Inr (InsertAnswer u s n q v (if truthy l then l else Str (js ''N/A'')) t)
              \<and> answer_query_v3 u s t answer
                = Inr (InsertAnswer u s n q v (if truthy l then l else Str (js ''N/A'')) t)"
    by (simp add: answer_query_v2_def answer_query_v3_def r assms js_or_def)
  have falsy: "l \<in> {Undefined, Null, Str [], Num (Finite 0)} \<Longrightarrow>
              (if truthy l then l else Str (js ''N/A'')) = Str (js ''N/A'')"
    by auto
  have never: "(if truthy l then l else Str (js ''N/A'')) \<noteq> Str []"
    by (cases l) auto
  from main variants falsy never show ?thesis by blast
qed

theorem answer_label_default_witness:
  "answer_query \<lparr>userId = Str (js ''u1''), sessionId = Str (js ''s1''), timestamp = Str (js ''t'')\<rparr>
       (Obj [(js ''question_number'', Num (Finite 1)), (js ''question_text'', Str (js ''Q1'')),
             (js ''answer_value'', Num (Finite 3)), (js ''answer_label'', Str [])])
     = Inr (InsertAnswer (Str (js ''u1'')) (Str (js ''s1'')) (Num (Finite 1)) (Str (js ''Q1''))
              (Num (Finite 3)) (Str (js ''N/A'')) (Str (js ''t'')))
   \<and> answer_query_v2 (Str (js ''u1'')) (Str (js ''s1'')) (Str (js ''t''))
       (Obj [(js ''question_number'', Num (Finite 1)), (js ''question_text'', Str (js ''Q1'')),
             (js ''answer_value'', Num (Finite 3)), (js ''answer_label'', Str [])])
     = Inr (InsertAnswer (Str (js ''u1'')) (Str (js ''s1'')) (Num (Finite 1)) (Str (js ''Q1''))
              (Num (Finite 3)) (Str (js ''N/A'')) (Str (js ''t'')))
   \<and> answer_query_v3 (Str (js ''u1'')) (Str (js ''s1'')) (Str (js ''t''))
       (Obj [(js ''question_number'', Num (Finite 1)), (js ''question_text'', Str (js ''Q1'')),
             (js ''answer_value'', Num (Finite 3)), (js ''answer_label'', Str [])])
     = Inr (InsertAnswer (Str (js ''u1'')) (Str (js ''s1'')) (Num (Finite 1)) (Str (js ''Q1''))
              (Num (Finite 3)) (Str (js ''N/A'')) (Str (js ''t'')))"
proof -
  let ?a = "Obj [(js ''question_number'', Num (Finite 1)), (js ''question_text'', Str (js ''Q1'')),
                 (js ''answer_value'', Num (Finite 3)), (js ''answer_label'', Str [])]"
  let ?c = "\<lparr>userId = Str (js ''u1''), sessionId = Str (js ''s1''), timestamp = Str (js ''t'')\<rparr>"
  have n: "getprop ?a (js ''question_number'') = Inr (Num (Finite 1))" by simp
  have q: "getprop ?a (js ''question_text'') = Inr (Str (js ''Q1''))" by simp
  have v: "getprop ?a (js ''answer_value'') = Inr (Num (Finite 3))" by simp
  have l: "getprop ?a (js ''answer_label'') = Inr (Str [])" by simp
  have ok: "\<not> answer_bad ?a" by (simp add: answer_bad_def)
  from answer_label_default
         [OF n q v l, of ?c "Str (js ''u1'')" "Str (js ''s1'')" "Str (js ''t'')"] ok
  show ?thesis by simp
qed

text \<open>
  C1, at the input where the code departs from it. The answers \<open>[null, {}]\<close> hold an
  element that the validation refuses, so a 400 naming it is due. The handler and the
  second log-answers variant both answer 500: the property read on the first element throws
  a TypeError before any answer is refused. No statement is executed.
\<close>

theorem handler_answers_null_element:
  "answer_bad (Obj [])
   \<and> handler Commit (post (example_answers [Null, Obj []])) empty_store
       = (Inr (json (setCorsHeaders new_response) 500
                 (Text ''Internal Server Error processing request.'')
                 (Some (msg (cannot_read (js ''null'') (js ''question_number''))))),
          empty_store)
   \<and> handler_v2 Commit (post (example_answers [Null, Obj []])) empty_store
       = (Inr (json (setCorsHeaders new_response) 500
                 (Text ''Internal server error processing answers'')
                 (Some (msg (cannot_read (js ''null'') (js ''question_number''))))),
          empty_store)"
  by (simp add: answer_bad_def handler_def handler_v2_def Let_def handlePreflight_def
        handler_try_def handler_try_v2_def is_event_dispatch_def post_def example_answers_def
        handleAnswers_def validateCommonFields_def validateAnswers_def answer_refused_def
        handler_catch_def cannot_read_def common_fields_missing_def answers_branch_v2_def
        answer_query_v2_def)

text \<open>
  C4, as amended. The handler and the first log-answers variant always return a response,
  whatever the request and whatever the store does. Every error that leaves the body of
  the \<open>try\<close> block (a validation failure, a failure of the body parser, a TypeError, and
  in the variant a rejected transaction) is answered 400 or 500 with a message and the
  message of the error. A call that the store rejects is answered 500 with the store's
  message by the handler. The variant answers the rejected insert of an event with 200.
\<close>

theorem handler_maps_every_error:
  "(\<exists>r st'. handler oc req st = (Inr r, st'))
   \<and> (req_method req = js ''POST''
        \<and> handler_try oc req (setCorsHeaders new_response) st = (Inl e, st') \<longrightarrow>
        (\<exists>r. handler oc req st = (Inr r, st') \<and> (status r = 400 \<or> status r = 500)
           \<and> message r \<noteq> None \<and> error r = Some (msg e)))
   \<and> (handler (Reject e) req st = (Inr r, st') \<and> calls st' \<noteq> calls st \<longrightarrow>
        status r = 500 \<and> error r = Some (msg e))
   \<and> (\<exists>r st'. handler_v1 oc req st = (Inr r, st'))
   \<and> (req_method req = js ''POST''
        \<and> handler_try_v1 oc req (cors_headers_v1 new_response) st = (Inl e, st') \<longrightarrow>
        (\<exists>r. handler_v1 oc req st = (Inr r, st') \<and> (status r = 400 \<or> status r = 500)
           \<and> message r \<noteq> None \<and> error r = Some (msg e)))"
  using handler_returns [of oc req st] handler_caught [of req oc st e st']
    handler_rejected [of e req st r st'] handler_v1_returns [of oc req st]
    handler_v1_caught [of req oc st e st']
  by blast


theorem handler_maps_every_error_witness:
  "(\<exists>r. handler Commit malformed empty_store = (Inr r, empty_store)
        \<and> (status r = 400 \<or> status r = 500) \<and> message r \<noteq> None
        \<and> error r = Some (msg bad_json))
   \<and> (status (json (setCorsHeaders new_response) 500
                 (ErrorLoggingEvent (Str (js ''test_finished''))) (Some (msg store_down))) = 500
        \<and> error (json (setCorsHeaders new_response) 500
                 (ErrorLoggingEvent (Str (js ''test_finished''))) (Some (msg store_down)))
            = Some (msg store_down))
   \<and> (\<exists>r. handler_v1 Commit (post (example_answers [Null])) empty_store = (Inr r, empty_store)
        \<and> (status r = 400 \<or> status r = 500) \<and> message r \<noteq> None
        \<and> error r = Some (msg (cannot_read (js ''null'') (js ''question_number''))))"
proof -
  let ?r = "json (setCorsHeaders new_response) 500
              (ErrorLoggingEvent (Str (js ''test_finished''))) (Some (msg store_down))"
  let ?st = "\<lparr>rows = [],
              calls = [Execute (InsertEvent (Str (js ''u1'')) (Str (js ''s1''))
                         (Str (js ''test_finished'')) (Str (js ''2024-01-01T00:00:00Z'')))]\<rparr>"
  have m1: "req_method malformed = js ''POST''" by (simp add: malformed_def)
  have t1: "handler_try Commit malformed (setCorsHeaders new_response) empty_store
              = (Inl bad_json, empty_store)"
    by (simp add: handler_try_def malformed_def)
  have ev: "handler (Reject store_down) (post (example_event ''test_finished'')) empty_store
              = (Inr ?r, ?st)"
    by (simp add: handler_def Let_def handlePreflight_def handler_try_def is_event_dispatch_def
          post_def example_event_def handleEvent_def validateCommonFields_def sql_execute_def
          empty_store_def)
  have ne: "calls ?st \<noteq> calls empty_store" by (simp add: empty_store_def)
  have m3: "req_method (post (example_answers [Null])) = js ''POST''" by (simp add: post_def)
  have t3: "handler_try_v1 Commit (post (example_answers [Null])) (cors_headers_v1 new_response)
              empty_store
              = (Inl (cannot_read (js ''null'') (js ''question_number'')), empty_store)"
    by (simp add: handler_try_v1_def post_def example_answers_def common_fields_missing_def
          is_event_dispatch_def answer_query_v1_def answer_refused_def)
  from handler_maps_every_error
         [of Commit malformed empty_store bad_json empty_store] m1 t1
  have a: "\<exists>r. handler Commit malformed empty_store = (Inr r, empty_store)
        \<and> (status r = 400 \<or> status r = 500) \<and> message r \<noteq> None
        \<and> error r = Some (msg bad_json)"
    by blast
  from handler_maps_every_error
         [of "Reject store_down" "post (example_event ''test_finished'')" empty_store
             store_down ?st ?r] ev ne
  have b: "status ?r = 500 \<and> error ?r = Some (msg store_down)"
    by blast
  from handler_maps_every_error
         [of Commit "post (example_answers [Null])" empty_store
             "cannot_read (js ''null'') (js ''question_number'')" empty_store] m3 t3
  have c: "\<exists>r. handler_v1 Commit (post (example_answers [Null])) empty_store = (Inr r, empty_store)
        \<and> (status r = 400 \<or> status r = 500) \<and> message r \<noteq> None
        \<and> error r = Some (msg (cannot_read (js ''null'') (js ''question_number'')))"
    by blast
  from a b c show ?thesis by blast
qed

text \<open>
  C4 as stated fails on the first log-answers variant: the store rejects the insert of the
  event, and the response is 200 with no error in its body.
\<close>

theorem store_failure_answered_200_counterexample:
  "fst (handler_v1 (Reject store_down) (post (example_event ''test_finished'')) empty_store)
     = Inr (json (cors_headers_v1 new_response) 200
              (EventReceived (Str (js ''test_finished''))) None)
   \<and> status (json (cors_headers_v1 new_response) 200
              (EventReceived (Str (js ''test_finished''))) None) = 200
   \<and> error (json (cors_headers_v1 new_response) 200
              (EventReceived (Str (js ''test_finished''))) None) = None"
  by (simp add: handler_v1_def handler_try_v1_def post_def example_event_def
        common_fields_missing_def is_event_dispatch_def sql_execute_def empty_store_def json_def
        cors_headers_v1_def setHeader_def new_response_def)


end
